theory Spec2Isabelle
  imports Main
begin


section \<open>Data model\<close>

text \<open>
  The types of package \<^verbatim>\<open>common\<close> as the sources under verification use them:
  \<^verbatim>\<open>ModulePath\<close>, \<^verbatim>\<open>ModuleFilePath\<close> and \<^verbatim>\<open>ModuleTagName\<close> are Go string types,
  \<^verbatim>\<open>ModuleSet\<close> is the struct with fields \<^verbatim>\<open>Version\<close> and \<^verbatim>\<open>Modules\<close>,
  \<^verbatim>\<open>ModuleInfo\<close> the struct with fields \<^verbatim>\<open>ModuleSetName\<close> and \<^verbatim>\<open>Version\<close>.
\<close>

type_synonym ModulePath = string
type_synonym ModuleFilePath = string
type_synonym ModuleTagName = string

record ModuleSet =
  Version :: string
  Modules :: "ModulePath list"

record ModuleInfo =
  ModuleSetName :: string
  Version :: string

text \<open>
  A Go map that the code ranges over is an association list in the order of one
  iteration (Go leaves that order open, so every theorem below holds for every order);
  a Go map that the code only looks up and stores into is a partial function.
\<close>

type_synonym ModuleSetMap = "(string \<times> ModuleSet) list"
type_synonym ModulePathMap = "(ModulePath \<times> ModuleFilePath) list"
type_synonym ModuleInfoMap = "ModulePath \<rightharpoonup> ModuleInfo"

record ModuleVersioning =
  ModSetMap :: ModuleSetMap
  ModPathMap :: ModulePathMap
  ModInfoMap :: ModuleInfoMap

record ModuleSetRelease =
  ModuleVersioning :: ModuleVersioning
  ModSetName :: string
  ModSet :: ModuleSet
  TagNames :: "ModuleTagName list"

text \<open>
  \<^verbatim>\<open>plumbing.Hash\<close>: an object id. Ids are collision free, which the model gets by
  letting the id of an annotated tag object be its content (name, message, target).
\<close>

datatype Hash = CommitID string | TagID string string Hash

text \<open>
  Errors are values. \<^verbatim>\<open>fmt.Errorf(format, args...)\<close> is kept unrendered as
  \<open>Errorf format args\<close>; the sentinel errors of the version-control library and the
  error structs of the tool are constructors of their own.
\<close>

datatype error =
    Errorf string "fmtarg list"
  | ErrTagNotFound
  | ErrTagExists
  | ErrObjectNotFound
  | ErrReferenceNotFound
  | ErrUnsupportedObject
  | ErrStorage
  | errGitTagsNotOnCommit Hash "string list"
  | TagExistsError string
  | CleanTreeError
  | NotFoundError ModulePath
  | NotUnderRepoRoot ModuleFilePath string
and fmtarg = S string | H Hash | E error | B bool

section \<open>Module versioning index\<close>

text \<open>
  Modelled from the spec: the constructor of the \<^verbatim>\<open>ModuleVersioning\<close>
  (\<^verbatim>\<open>common.NewModuleVersioning\<close>) is not in the sources. Section 4.3: iterate all sets;
  for each module path, if already present in the index, fail with a
  DuplicateModuleError naming both conflicting set names; otherwise record
  {set name, version}. The model follows, line by line, \<^verbatim>\<open>MockModuleVersioning\<close>,
  which commontest.go holds as commented-out text and which is this algorithm: the
  inner loop ranges over \<^verbatim>\<open>moduleSet.Modules\<close>, the outer one over the module sets.
\<close>

fun MockModuleVersioning_modules ::
  "string \<Rightarrow> ModuleSet \<Rightarrow> ModulePath list \<Rightarrow> ModuleInfoMap \<Rightarrow> error + ModuleInfoMap" where
  "MockModuleVersioning_modules setName moduleSet [] modInfoMap = Inr modInfoMap"
| "MockModuleVersioning_modules setName moduleSet (modPath # rest) modInfoMap =
     (case modInfoMap modPath of
        Some existing \<Rightarrow>
          Inl (Errorf ''module %v exists more than once (exists in sets %v and %v)''
                 [S modPath, S (ModuleSetName existing), S setName])
      | None \<Rightarrow>
          MockModuleVersioning_modules setName moduleSet rest
            (modInfoMap(modPath \<mapsto>
               \<lparr>ModuleSetName = setName, Version = ModuleSet.Version moduleSet\<rparr>)))"

fun MockModuleVersioning_sets :: "ModuleSetMap \<Rightarrow> ModuleInfoMap \<Rightarrow> error + ModuleInfoMap" where
  "MockModuleVersioning_sets [] modInfoMap = Inr modInfoMap"
| "MockModuleVersioning_sets ((setName, moduleSet) # rest) modInfoMap =
     (case MockModuleVersioning_modules setName moduleSet (Modules moduleSet) modInfoMap of
        Inl err \<Rightarrow> Inl err
      | Inr modInfoMap' \<Rightarrow> MockModuleVersioning_sets rest modInfoMap')"

definition MockModuleVersioning ::
  "ModuleSetMap \<Rightarrow> ModulePathMap \<Rightarrow> error + ModuleVersioning" where
  "MockModuleVersioning modSetMap modPathMap =
     (case MockModuleVersioning_sets modSetMap Map.empty of
        Inl err \<Rightarrow> Inl err
      | Inr modInfoMap \<Rightarrow>
          Inr \<lparr>ModSetMap = modSetMap, ModPathMap = modPathMap, ModInfoMap = modInfoMap\<rparr>)"





text \<open>The manifest of the test \<^verbatim>\<open>TestNewModuleSetRelease\<close>, and one with a shared module.\<close>

definition validModSetMap :: ModuleSetMap where
  "validModSetMap =
     [(''mod-set-1'', \<lparr>ModuleSet.Version = ''v1.2.3-RC1+meta'',
                        Modules = [''go.opentelemetry.io/test/test1'']\<rparr>),
      (''mod-set-2'', \<lparr>ModuleSet.Version = ''v0.1.0'',
                        Modules = [''go.opentelemetry.io/test3'']\<rparr>),
      (''mod-set-3'', \<lparr>ModuleSet.Version = ''v2.2.2'',
                        Modules = [''go.opentelemetry.io/testroot/v2'']\<rparr>)]"




definition validModPathMap :: ModulePathMap where
  "validModPathMap =
     [(''go.opentelemetry.io/test/test1'', ''/repo/test/test1/go.mod''),
      (''go.opentelemetry.io/test3'', ''/repo/test/go.mod''),
      (''go.opentelemetry.io/testroot/v2'', ''/repo/go.mod'')]"

section \<open>Tag name deriver\<close>

text \<open>\<^verbatim>\<open>strings.Join\<close> of the Go standard library.\<close>

fun Join :: "string list \<Rightarrow> string \<Rightarrow> string" where
  "Join [] sep = []"
| "Join [x] sep = x"
| "Join (x # y # ys) sep = x @ sep @ Join (y # ys) sep"

text \<open>
  Modelled from the spec: the sentinel \<^verbatim>\<open>RepoRootTag\<close> that the test
  \<^verbatim>\<open>TestNewModuleSetRelease\<close> names. Its declaration is not in the sources; the value
  below stands for it, and only its being different from every derived directory path
  of the examples is used.
\<close>

definition RepoRootTag :: ModuleTagName where
  "RepoRootTag = ''REPOROOTTAG''"

text \<open>
  A file path of the host is cut at the host's separator (\<^verbatim>\<open>os.PathSeparator\<close>, a
  parameter here); empty elements (a leading or a doubled separator) are dropped.
\<close>

fun splitPath :: "char \<Rightarrow> string \<Rightarrow> string list" where
  "splitPath sep [] = [[]]"
| "splitPath sep (c # cs) =
     (if c = sep then [] # splitPath sep cs
      else (case splitPath sep cs of [] \<Rightarrow> [[c]] | x # xs \<Rightarrow> (c # x) # xs))"

definition pathElements :: "char \<Rightarrow> string \<Rightarrow> string list" where
  "pathElements sep path = filter (\<lambda>e. e \<noteq> []) (splitPath sep path)"

text \<open>
  Modelled from the spec: the functions of package \<^verbatim>\<open>common\<close> that derive tag names
  are not in the sources. Section 4.4 of the spec: compute the path of the module's
  definition file relative to the repository root; strip the trailing definition-file
  component; if the remaining relative directory is empty, emit the sentinel root-tag
  value; otherwise emit the directory path using forward-slash separators regardless of
  host path convention. A definition file that is not under the root is an error (the
  spec leaves that case open).
\<close>

definition relativePath :: "char \<Rightarrow> string \<Rightarrow> ModuleFilePath \<Rightarrow> string list option" where
  "relativePath sep repoRoot modFilePath =
     (let rootElems = pathElements sep repoRoot; fileElems = pathElements sep modFilePath
      in if length rootElems < length fileElems \<and> take (length rootElems) fileElems = rootElems
         then Some (drop (length rootElems) fileElems) else None)"

definition ModuleFilePathToTagName ::
  "char \<Rightarrow> ModuleFilePath \<Rightarrow> string \<Rightarrow> error + ModuleTagName" where
  "ModuleFilePathToTagName sep modFilePath repoRoot =
     (case relativePath sep repoRoot modFilePath of
        None \<Rightarrow> Inl (NotUnderRepoRoot modFilePath repoRoot)
      | Some rel \<Rightarrow>
          (let dir = butlast rel
           in if dir = [] then Inr RepoRootTag else Inr (Join dir ''/'')))"

text \<open>
  Modelled from the spec: \<^verbatim>\<open>common.ModulePathsToTagNames(modPaths, modPathMap, repoRoot)\<close>,
  called by \<^verbatim>\<open>MockModuleSetRelease\<close>; its body is not in the sources. Each module path
  is looked up in the \<^verbatim>\<open>ModulePathMap\<close> (section 4.2: a module without a definition file
  is a NotFoundError) and its tag name derived, in the order of the module paths.
\<close>

fun ModulePathsToTagNames ::
  "char \<Rightarrow> ModulePath list \<Rightarrow> ModulePathMap \<Rightarrow> string \<Rightarrow> error + ModuleTagName list" where
  "ModulePathsToTagNames sep [] modPathMap repoRoot = Inr []"
| "ModulePathsToTagNames sep (modPath # rest) modPathMap repoRoot =
     (case map_of modPathMap modPath of
        None \<Rightarrow> Inl (NotFoundError modPath)
      | Some modFilePath \<Rightarrow>
          (case ModuleFilePathToTagName sep modFilePath repoRoot of
             Inl err \<Rightarrow> Inl err
           | Inr tagName \<Rightarrow>
               (case ModulePathsToTagNames sep rest modPathMap repoRoot of
                  Inl err \<Rightarrow> Inl err
                | Inr tagNames \<Rightarrow> Inr (tagName # tagNames))))"

text \<open>
  Modelled from the spec: the constructor of the \<^verbatim>\<open>ModuleSetRelease\<close>
  (\<^verbatim>\<open>common.NewModuleSetRelease\<close>) is not in the sources. Section 3: a
  ModuleVersioning narrowed to one named set, plus its derived tag names. The model
  follows \<^verbatim>\<open>MockModuleSetRelease\<close>, which commontest.go holds as commented-out text.
  \<^verbatim>\<open>modSetMap[modSetToUpdate]\<close> is Go's map index, the zero \<^verbatim>\<open>ModuleSet\<close> for a
  missing key. There the error of \<^verbatim>\<open>ModulePathsToTagNames\<close> is assigned and never
  read: the function goes on with the tag names returned beside it (none, \<^verbatim>\<open>nil\<close>).
\<close>

definition modSetMapIndex :: "ModuleSetMap \<Rightarrow> string \<Rightarrow> ModuleSet" where
  "modSetMapIndex modSetMap setName =
     (case map_of modSetMap setName of
        None \<Rightarrow> \<lparr>ModuleSet.Version = [], Modules = []\<rparr>
      | Some moduleSet \<Rightarrow> moduleSet)"

definition MockModuleSetRelease ::
  "char \<Rightarrow> ModuleSetMap \<Rightarrow> ModulePathMap \<Rightarrow> string \<Rightarrow> string \<Rightarrow> error + ModuleSetRelease" where
  "MockModuleSetRelease sep modSetMap modPathMap modSetToUpdate repoRoot =
     (case MockModuleVersioning modSetMap modPathMap of
        Inl err \<Rightarrow> Inl (Errorf ''error getting MockModuleVersioning: %v'' [E err])
      | Inr modVersioning \<Rightarrow>
          (let modSet = modSetMapIndex modSetMap modSetToUpdate;
               tagNames = (case ModulePathsToTagNames sep (Modules modSet) modPathMap repoRoot of
                             Inl err \<Rightarrow> []
                           | Inr names \<Rightarrow> names)
           in Inr \<lparr>ModuleVersioning = modVersioning, ModSetName = modSetToUpdate,
                   ModSet = modSet, TagNames = tagNames\<rparr>))"

text \<open>
  Modelled from the spec: the methods \<^verbatim>\<open>ModSetVersion()\<close> and \<^verbatim>\<open>ModuleFullTagNames()\<close>
  of \<^verbatim>\<open>ModuleSetRelease\<close>, which the tagger calls; their bodies are not in the sources.
  Section 4.4: full tag name = \<^verbatim>\<open><ModuleTagName>/<version>\<close>, except the root sentinel
  which uses just \<^verbatim>\<open><version>\<close>.
\<close>

definition ModSetVersion :: "ModuleSetRelease \<Rightarrow> string" where
  "ModSetVersion modRelease = ModuleSet.Version (ModSet modRelease)"

definition fullTagName :: "string \<Rightarrow> ModuleTagName \<Rightarrow> string" where
  "fullTagName version modTagName =
     (if modTagName = RepoRootTag then version else modTagName @ ''/'' @ version)"

definition ModuleFullTagNames :: "ModuleSetRelease \<Rightarrow> string list" where
  "ModuleFullTagNames modRelease =
     map (fullTagName (ModSetVersion modRelease)) (TagNames modRelease)"

text \<open>A host path written from its elements, each after a separator.\<close>

definition absPath :: "char \<Rightarrow> string list \<Rightarrow> string" where
  "absPath sep elems = concat (map (\<lambda>e. sep # e) elems)"

section \<open>The version-control repository\<close>

text \<open>
  The tool works on a \<^verbatim>\<open>*git.Repository\<close> of the go-git library, an external
  collaborator. Its state is modelled by what the tool can observe: the tag references
  (\<^verbatim>\<open>refs/tags/<name>\<close>, each holding an object id), the object store, and the table
  of revisions that \<^verbatim>\<open>ResolveRevision\<close> resolves (full and abbreviated hashes, branch
  names and so on). A lightweight tag is a reference whose id is the commit itself; an
  annotated tag is a reference to a tag object whose target is the commit.
  Storage can fail: \<open>broken\<close> holds the library calls that fail with a storage error.
  \<open>journal\<close> is a ghost field: the mutations that succeeded, in their order.
\<close>

record TagObj =
  Name :: string
  Message :: string
  Target :: Hash

datatype Object = CommitObject | AnnotatedTag TagObj | OtherObject

datatype GitCall =
    CallTag string
  | CallTagObject Hash
  | CallCommit Hash
  | CallResolveRevision string
  | CallCreateTag string
  | CallDeleteTag string

datatype Mutation = Created string Hash string | Deleted string

record Repository =
  tagRefs :: "string \<rightharpoonup> Hash"
  objects :: "Hash \<rightharpoonup> Object"
  revisions :: "string \<rightharpoonup> Hash"
  broken :: "GitCall set"
  journal :: "Mutation list"

text \<open>\<^verbatim>\<open>repo.Tag(name)\<close>, read through \<^verbatim>\<open>tagRef.Hash()\<close>: the id the reference holds.\<close>

definition Tag :: "Repository \<Rightarrow> string \<Rightarrow> error + Hash" where
  "Tag repo name =
     (if CallTag name \<in> broken repo then Inl ErrStorage
      else case tagRefs repo name of None \<Rightarrow> Inl ErrTagNotFound | Some h \<Rightarrow> Inr h)"

text \<open>\<^verbatim>\<open>repo.TagObject(hash)\<close>: annotated tags only, no lightweight tags.\<close>

definition TagObject :: "Repository \<Rightarrow> Hash \<Rightarrow> error + TagObj" where
  "TagObject repo h =
     (if CallTagObject h \<in> broken repo then Inl ErrStorage
      else case objects repo h of
             Some (AnnotatedTag tagObj) \<Rightarrow> Inr tagObj
           | _ \<Rightarrow> Inl ErrObjectNotFound)"

text \<open>\<^verbatim>\<open>tagObj.Commit()\<close>, read through the field \<^verbatim>\<open>Hash\<close> of the commit.\<close>

definition Commit :: "Repository \<Rightarrow> TagObj \<Rightarrow> error + Hash" where
  "Commit repo tagObj =
     (if CallCommit (Target tagObj) \<in> broken repo then Inl ErrStorage
      else case objects repo (Target tagObj) of
             Some CommitObject \<Rightarrow> Inr (Target tagObj)
           | Some _ \<Rightarrow> Inl ErrUnsupportedObject
           | None \<Rightarrow> Inl ErrObjectNotFound)"

text \<open>\<^verbatim>\<open>repo.ResolveRevision(plumbing.Revision(revision))\<close>.\<close>

definition ResolveRevision :: "Repository \<Rightarrow> string \<Rightarrow> error + Hash" where
  "ResolveRevision repo revision =
     (if CallResolveRevision revision \<in> broken repo then Inl ErrStorage
      else case revisions repo revision of None \<Rightarrow> Inl ErrReferenceNotFound | Some h \<Rightarrow> Inr h)"

text \<open>
  \<^verbatim>\<open>repo.CreateTag(name, hash, &git.CreateTagOptions{Message: message})\<close>: refuses an
  existing tag and a target that is not in the object store; otherwise stores the tag
  object and the reference to it. The reference it returns is dropped by the caller.
\<close>

definition CreateTag :: "Repository \<Rightarrow> string \<Rightarrow> Hash \<Rightarrow> string \<Rightarrow> error + Repository" where
  "CreateTag repo name hash message =
     (if CallCreateTag name \<in> broken repo then Inl ErrStorage
      else case tagRefs repo name of
             Some _ \<Rightarrow> Inl ErrTagExists
           | None \<Rightarrow>
               (case objects repo hash of
                  None \<Rightarrow> Inl ErrObjectNotFound
                | Some _ \<Rightarrow>
                    Inr (repo\<lparr>tagRefs := (tagRefs repo)(name \<mapsto> TagID name message hash),
                              objects := (objects repo)(TagID name message hash \<mapsto>
                                 AnnotatedTag \<lparr>Name = name, Message = message, Target = hash\<rparr>),
                              journal := journal repo @ [Created name hash message]\<rparr>)))"

text \<open>\<^verbatim>\<open>repo.DeleteTag(name)\<close>: removes the reference; the tag object stays in the store.\<close>

definition DeleteTag :: "Repository \<Rightarrow> string \<Rightarrow> error + Repository" where
  "DeleteTag repo name =
     (if CallDeleteTag name \<in> broken repo then Inl ErrStorage
      else case tagRefs repo name of
             None \<Rightarrow> Inl ErrTagNotFound
           | Some _ \<Rightarrow>
               Inr (repo\<lparr>tagRefs := (tagRefs repo)(name := None),
                         journal := journal repo @ [Deleted name]\<rparr>))"

section \<open>The tag operation\<close>

text \<open>
  tag.go. The struct \<^verbatim>\<open>tagger\<close> embeds the \<^verbatim>\<open>ModuleSetRelease\<close>; the repository its
  field \<^verbatim>\<open>Repo\<close> points to is the \<open>Repository\<close> passed to each function, and a function
  that mutates it returns the new state. A Go function returning \<^verbatim>\<open>error\<close> returns
  \<open>error option\<close>, \<open>None\<close> for \<^verbatim>\<open>nil\<close>. Log output that no claim is about is left out.
\<close>

record tagger =
  ModuleSetRelease :: ModuleSetRelease
  CommitHash :: Hash

text \<open>\<^verbatim>\<open>verifyTagsOnCommit\<close>: the loop, with \<^verbatim>\<open>tagsNotOnCommit\<close> as accumulator.\<close>

fun verifyTagsOnCommit_loop ::
  "string list \<Rightarrow> Repository \<Rightarrow> Hash \<Rightarrow> string list \<Rightarrow> error + string list" where
  "verifyTagsOnCommit_loop [] repo targetCommitHash tagsNotOnCommit = Inr tagsNotOnCommit"
| "verifyTagsOnCommit_loop (tagName # rest) repo targetCommitHash tagsNotOnCommit =
     (case Tag repo tagName of
        Inr tagRef \<Rightarrow>
          (case TagObject repo tagRef of
             Inl tagObjErr \<Rightarrow> Inl (Errorf ''unable to get tag object: %v'' [E tagObjErr])
           | Inr tagObj \<Rightarrow>
               (case Commit repo tagObj of
                  Inl tagCommitErr \<Rightarrow>
                    Inl (Errorf ''could not get tag object commit: %v'' [E tagCommitErr])
                | Inr tagCommit \<Rightarrow>
                    verifyTagsOnCommit_loop rest repo targetCommitHash
                      (if targetCommitHash \<noteq> tagCommit then tagsNotOnCommit @ [tagName]
                       else tagsNotOnCommit)))
      | Inl tagRefErr \<Rightarrow>
          (if tagRefErr = ErrTagNotFound
           then verifyTagsOnCommit_loop rest repo targetCommitHash tagsNotOnCommit
           else Inl (Errorf ''unable to fetch git tag ref for %v: %v'' [S tagName, E tagRefErr])))"

definition verifyTagsOnCommit :: "string list \<Rightarrow> Repository \<Rightarrow> Hash \<Rightarrow> error option" where
  "verifyTagsOnCommit modFullTagNames repo targetCommitHash =
     (case verifyTagsOnCommit_loop modFullTagNames repo targetCommitHash [] of
        Inl err \<Rightarrow> Some err
      | Inr tagsNotOnCommit \<Rightarrow>
          (if length tagsNotOnCommit > 0
           then Some (errGitTagsNotOnCommit targetCommitHash tagsNotOnCommit)
           else None))"

definition getFullCommitHash :: "string \<Rightarrow> Repository \<Rightarrow> error + Hash" where
  "getFullCommitHash hash repo =
     (case ResolveRevision repo hash of
        Inl err \<Rightarrow> Inl (Errorf ''error getting full hash: %v'' [E err])
      | Inr fullHash \<Rightarrow> Inr fullHash)"

text \<open>
  Modelled from the spec: \<^verbatim>\<open>VerifyGitTagsDoNotAlreadyExist\<close> of package \<^verbatim>\<open>common\<close>,
  called by \<^verbatim>\<open>newTagger\<close>; its body is not in the sources. Section 4.5: every computed
  full tag name must not already exist in the version-control history; otherwise fails
  with TagExistsError and no mutation occurs. The error names the first such tag.
\<close>

definition VerifyGitTagsDoNotAlreadyExist :: "ModuleSetRelease \<Rightarrow> Repository \<Rightarrow> error option" where
  "VerifyGitTagsDoNotAlreadyExist modRelease repo =
     (case find (\<lambda>tagName. tagRefs repo tagName \<noteq> None) (ModuleFullTagNames modRelease) of
        Some tagName \<Rightarrow> Some (TagExistsError tagName)
      | None \<Rightarrow> None)"

text \<open>
  \<^verbatim>\<open>newTagger\<close>. \<^verbatim>\<open>common.NewModuleSetRelease\<close> reads the versioning file and the
  module files, which are outside this model: it is the parameter
  \<open>NewModuleSetRelease\<close>.
\<close>

definition newTagger ::
  "(string \<Rightarrow> string \<Rightarrow> string \<Rightarrow> error + ModuleSetRelease) \<Rightarrow> Repository \<Rightarrow>
   string \<Rightarrow> string \<Rightarrow> string \<Rightarrow> string \<Rightarrow> bool \<Rightarrow> error + tagger" where
  "newTagger NewModuleSetRelease repo versioningFilename modSetToUpdate repoRoot hash
     deleteModuleSetTags =
     (case NewModuleSetRelease versioningFilename modSetToUpdate repoRoot of
        Inl err \<Rightarrow> Inl (Errorf ''error creating prerelease struct: %v'' [E err])
      | Inr modRelease \<Rightarrow>
          (case getFullCommitHash hash repo of
             Inl err \<Rightarrow>
               Inl (Errorf ''could not get full commit hash of given hash %v: %v'' [S hash, E err])
           | Inr fullCommitHash \<Rightarrow>
               (let modFullTagNames = ModuleFullTagNames modRelease
                in if deleteModuleSetTags
                   then (case verifyTagsOnCommit modFullTagNames repo fullCommitHash of
                           Some err \<Rightarrow> Inl (Errorf ''verifyTagsOnCommit failed: %v'' [E err])
                         | None \<Rightarrow>
                             Inr \<lparr>ModuleSetRelease = modRelease, CommitHash = fullCommitHash\<rparr>)
                   else (case VerifyGitTagsDoNotAlreadyExist modRelease repo of
                           Some err \<Rightarrow>
                             Inl (Errorf ''VerifyGitTagsDoNotAlreadyExist failed: %v'' [E err])
                         | None \<Rightarrow>
                             Inr \<lparr>ModuleSetRelease = modRelease, CommitHash = fullCommitHash\<rparr>))))"

text \<open>\<^verbatim>\<open>deleteTags\<close>: stops at the first tag that cannot be deleted.\<close>

fun deleteTags :: "Repository \<Rightarrow> string list \<Rightarrow> error option \<times> Repository" where
  "deleteTags repo [] = (None, repo)"
| "deleteTags repo (modFullTag # rest) =
     (case DeleteTag repo modFullTag of
        Inl err \<Rightarrow> (Some (Errorf ''could not delete tag %v: %v'' [S modFullTag, E err]), repo)
      | Inr repo' \<Rightarrow> deleteTags repo' rest)"

definition deleteModuleSetTags :: "tagger \<Rightarrow> Repository \<Rightarrow> error option \<times> Repository" where
  "deleteModuleSetTags t repo =
     (case deleteTags repo (ModuleFullTagNames (ModuleSetRelease t)) of
        (Some err, repo') \<Rightarrow> (Some (Errorf ''unable to delete module tags: %v'' [E err]), repo')
      | (None, repo') \<Rightarrow> (None, repo'))"

text \<open>
  \<^verbatim>\<open>tagAllModules\<close>: the tag message, and the loop with \<^verbatim>\<open>addedFullTags\<close> as
  accumulator. The format of the second error has a line break after the first two
  verbs.
\<close>

definition tagMessage :: "tagger \<Rightarrow> string" where
  "tagMessage t =
     ''Module set '' @ ModSetName (ModuleSetRelease t) @ '', Version '' @
       ModSetVersion (ModuleSetRelease t)"

fun tagAllModules_loop ::
  "Repository \<Rightarrow> Hash \<Rightarrow> string \<Rightarrow> string list \<Rightarrow> string list \<Rightarrow> error option \<times> Repository" where
  "tagAllModules_loop repo commitHash message [] addedFullTags = (None, repo)"
| "tagAllModules_loop repo commitHash message (newFullTag # rest) addedFullTags =
     (case CreateTag repo newFullTag commitHash message of
        Inl err \<Rightarrow>
          (case deleteTags repo addedFullTags of
             (Some delTagsErr, repo') \<Rightarrow>
               (Some (Errorf (''git tag failed for %v: %v'' @ [CHR 0x0A] @
                        ''During handling of the above error, failed to not remove all tags: %v'')
                        [S newFullTag, E err, E delTagsErr]), repo')
           | (None, repo') \<Rightarrow>
               (Some (Errorf ''git tag failed for %v: %v'' [S newFullTag, E err]), repo'))
      | Inr repo' \<Rightarrow>
          tagAllModules_loop repo' commitHash message rest (addedFullTags @ [newFullTag]))"

definition tagAllModules :: "tagger \<Rightarrow> Repository \<Rightarrow> error option \<times> Repository" where
  "tagAllModules t repo =
     tagAllModules_loop repo (CommitHash t) (tagMessage t)
       (ModuleFullTagNames (ModuleSetRelease t)) []"

text \<open>
  \<^verbatim>\<open>Run\<close> of package \<^verbatim>\<open>tag\<close>. \<^verbatim>\<open>log.Fatalf\<close> ends the process: the outcome
  \<open>Fatal\<close> with the format and its arguments (\<open>FatalV\<close>, with the values only, for
  \<^verbatim>\<open>log.Fatal\<close>). \<^verbatim>\<open>tools.FindRepoRoot\<close> is outside the model; its result is a
  parameter.
\<close>

datatype Outcome = Returned | Fatal string "fmtarg list" | FatalV "fmtarg list"

definition tag_Run ::
  "(error + string) \<Rightarrow> (string \<Rightarrow> string \<Rightarrow> string \<Rightarrow> error + ModuleSetRelease) \<Rightarrow> Repository \<Rightarrow>
   string \<Rightarrow> string \<Rightarrow> string \<Rightarrow> bool \<Rightarrow> Outcome \<times> Repository" where
  "tag_Run FindRepoRoot NewModuleSetRelease repo versioningFile moduleSetName commitHash
     deleteModuleSetTags' =
     (case FindRepoRoot of
        Inl err \<Rightarrow> (Fatal ''unable to change to repo root: %v'' [E err], repo)
      | Inr repoRoot \<Rightarrow>
          (case newTagger NewModuleSetRelease repo versioningFile moduleSetName repoRoot
                  commitHash deleteModuleSetTags' of
             Inl err \<Rightarrow> (Fatal ''Error creating new tagger struct: %v'' [E err], repo)
           | Inr t \<Rightarrow>
               (if deleteModuleSetTags'
                then (case deleteModuleSetTags t repo of
                        (Some err, repo') \<Rightarrow>
                          (Fatal ''Error deleting tags for the specified module set: %v'' [E err],
                           repo')
                      | (None, repo') \<Rightarrow> (Returned, repo'))
                else (case tagAllModules t repo of
                        (Some err, repo') \<Rightarrow> (Fatal ''unable to tag modules: %v'' [E err], repo')
                      | (None, repo') \<Rightarrow> (Returned, repo')))))"

text \<open>
  The commit an existing tag points at, read the way \<^verbatim>\<open>verifyTagsOnCommit\<close> reads it
  (reference, tag object, commit); a tag name is readable when it does not exist or
  all three reads succeed; it is off the target when its commit is another one.
\<close>

definition tagCommit :: "Repository \<Rightarrow> string \<Rightarrow> error + Hash" where
  "tagCommit repo tagName =
     (case Tag repo tagName of
        Inl err \<Rightarrow> Inl err
      | Inr tagRef \<Rightarrow>
          (case TagObject repo tagRef of
             Inl err \<Rightarrow> Inl err
           | Inr tagObj \<Rightarrow> Commit repo tagObj))"



subsection \<open>Example repositories\<close>

definition commitA :: Hash where
  "commitA = CommitID ''a0a0a0a0''"

definition commitB :: Hash where
  "commitB = CommitID ''b0b0b0b0''"

definition exampleModSet :: ModuleSet where
  "exampleModSet =
     \<lparr>ModuleSet.Version = ''v0.1.0'',
      Modules = [''go.opentelemetry.io/test3'', ''go.opentelemetry.io/test/test1'',
                 ''go.opentelemetry.io/testroot/v2'']\<rparr>"

definition exampleRelease :: ModuleSetRelease where
  "exampleRelease =
     \<lparr>ModuleVersioning =
        \<lparr>ModSetMap = [(''mod-set-1'', exampleModSet)],
         ModPathMap = validModPathMap,
         ModInfoMap =
           [''go.opentelemetry.io/test3'' \<mapsto>
              \<lparr>ModuleSetName = ''mod-set-1'', Version = ''v0.1.0''\<rparr>,
            ''go.opentelemetry.io/test/test1'' \<mapsto>
              \<lparr>ModuleSetName = ''mod-set-1'', Version = ''v0.1.0''\<rparr>,
            ''go.opentelemetry.io/testroot/v2'' \<mapsto>
              \<lparr>ModuleSetName = ''mod-set-1'', Version = ''v0.1.0''\<rparr>]\<rparr>,
      ModSetName = ''mod-set-1'',
      ModSet = exampleModSet,
      TagNames = [''test'', ''test/test1'', RepoRootTag]\<rparr>"

definition exampleNewModuleSetRelease ::
  "string \<Rightarrow> string \<Rightarrow> string \<Rightarrow> error + ModuleSetRelease" where
  "exampleNewModuleSetRelease versioningFilename modSetToUpdate repoRoot =
     (if modSetToUpdate = ''mod-set-1'' then Inr exampleRelease
      else Inl (NotFoundError modSetToUpdate))"

text \<open>A repository with the two commits and no tag.\<close>

definition untaggedRepo :: Repository where
  "untaggedRepo =
     \<lparr>tagRefs = Map.empty,
      objects = [commitA \<mapsto> CommitObject, commitB \<mapsto> CommitObject],
      revisions = [''a0a0'' \<mapsto> commitA, ''b0b0'' \<mapsto> commitB],
      broken = {},
      journal = []\<rparr>"

text \<open>
  The set's tags on commit A: \<^verbatim>\<open>test/v0.1.0\<close> and \<^verbatim>\<open>test/test1/v0.1.0\<close> annotated,
  and \<^verbatim>\<open>v0.1.0\<close> once annotated, once lightweight.
\<close>

definition annotatedOnA :: "string \<Rightarrow> Hash" where
  "annotatedOnA tagName = TagID tagName ''Module set mod-set-1, Version v0.1.0'' commitA"

definition annotatedObjOnA :: "string \<Rightarrow> Object" where
  "annotatedObjOnA tagName =
     AnnotatedTag \<lparr>Name = tagName, Message = ''Module set mod-set-1, Version v0.1.0'',
                   Target = commitA\<rparr>"

definition taggedRepo :: Repository where
  "taggedRepo =
     \<lparr>tagRefs = [''test/v0.1.0'' \<mapsto> annotatedOnA ''test/v0.1.0'',
                 ''test/test1/v0.1.0'' \<mapsto> annotatedOnA ''test/test1/v0.1.0'',
                 ''v0.1.0'' \<mapsto> annotatedOnA ''v0.1.0''],
      objects = [commitA \<mapsto> CommitObject, commitB \<mapsto> CommitObject,
                 annotatedOnA ''test/v0.1.0'' \<mapsto> annotatedObjOnA ''test/v0.1.0'',
                 annotatedOnA ''test/test1/v0.1.0'' \<mapsto> annotatedObjOnA ''test/test1/v0.1.0'',
                 annotatedOnA ''v0.1.0'' \<mapsto> annotatedObjOnA ''v0.1.0''],
      revisions = [''a0a0'' \<mapsto> commitA, ''b0b0'' \<mapsto> commitB],
      broken = {},
      journal = []\<rparr>"

definition lightweightRepo :: Repository where
  "lightweightRepo = taggedRepo\<lparr>tagRefs := (tagRefs taggedRepo)(''v0.1.0'' \<mapsto> commitA)\<rparr>"

definition exampleTagger :: tagger where
  "exampleTagger = \<lparr>ModuleSetRelease = exampleRelease, CommitHash = commitB\<rparr>"

text \<open>
  The untagged repository where storage refuses to create the third tag, and where it
  also refuses to delete the second one.
\<close>

definition createFailsRepo :: Repository where
  "createFailsRepo = untaggedRepo\<lparr>broken := {CallCreateTag ''v0.1.0''}\<rparr>"

definition rollbackFailsRepo :: Repository where
  "rollbackFailsRepo =
     untaggedRepo\<lparr>broken := {CallCreateTag ''v0.1.0'', CallDeleteTag ''test/test1/v0.1.0''}\<rparr>"

section \<open>The sync operation\<close>

text \<open>
  sync.go. The struct \<^verbatim>\<open>sync\<close>, and the collaborators of \<^verbatim>\<open>Run\<close> that are not in
  the sources: functions of the packages \<^verbatim>\<open>tools\<close> and \<^verbatim>\<open>common\<close> and of go-git that
  read or change the file system and the repository. They are parameters, the fields of
  \<open>SyncEnv\<close>, over a state \<open>'w\<close> of the world (files, branches, commits) that nothing
  else changes. A collaborator that changes the world returns the new one, also when it
  fails. Line breaks at the end of a logged format are left out, and of the closing
  message of \<^verbatim>\<open>Run\<close> only its first sentence is kept.
\<close>

record sync =
  OtherModuleSetName :: string
  OtherModuleSet :: ModuleSet
  MyModuleVersioning :: ModuleVersioning

text \<open>
  \<^verbatim>\<open>git.Status\<close>: the status codes of each file in the staging area and in the
  worktree. \<^verbatim>\<open>IsClean\<close> holds when every file is unmodified in both.
\<close>

datatype StatusCode = Unmodified | Untracked | Modified | Added | Removed | Renamed | Copied

record FileStatus =
  Staging :: StatusCode
  Worktree :: StatusCode

type_synonym Status = "(string \<times> FileStatus) list"

definition IsClean :: "Status \<Rightarrow> bool" where
  "IsClean status =
     list_all (\<lambda>(path, fileStatus).
        Worktree fileStatus = Unmodified \<and> Staging fileStatus = Unmodified) status"

record 'w SyncEnv =
  FindRepoRoot :: "'w \<Rightarrow> error + string"
  GetAllModuleSetNames :: "'w \<Rightarrow> string \<Rightarrow> string \<Rightarrow> error + string list"
  PlainOpen :: "'w \<Rightarrow> string \<Rightarrow> error option"
  GetModuleSet :: "'w \<Rightarrow> string \<Rightarrow> string \<Rightarrow> error + ModuleSet"
  NewModuleVersioning :: "'w \<Rightarrow> string \<Rightarrow> string \<Rightarrow> error + ModuleVersioning"
  UpdateGoModFiles ::
    "ModuleFilePath list \<Rightarrow> ModulePath list \<Rightarrow> string \<Rightarrow> 'w \<Rightarrow> error option \<times> 'w"
  GetWorktree :: "'w \<Rightarrow> error option"
  WorktreeStatus :: "'w \<Rightarrow> error + Status"
  RunGoModTidy :: "ModulePathMap \<Rightarrow> 'w \<Rightarrow> error option \<times> 'w"
  CommitChangesToNewBranch :: "string \<Rightarrow> string \<Rightarrow> 'w \<Rightarrow> error option \<times> 'w"

text \<open>
  What a run does, in order: the lines it logs and its calls of the collaborators that
  change the world.
\<close>

datatype Event =
    Logged string "fmtarg list"
  | CallUpdateGoModFiles "ModuleFilePath list" "ModulePath list" string
  | CallRunGoModTidy ModulePathMap
  | CallCommitChangesToNewBranch string string

text \<open>
  Modelled from the spec: \<^verbatim>\<open>common.VerifyWorkingTreeClean(repo)\<close>, called by \<^verbatim>\<open>Run\<close>;
  its body is not in the sources. Section 4.5: the working tree must be clean before
  starting; any pre-existing modification aborts the whole run with a CleanTreeError.
  It reads the status as \<^verbatim>\<open>checkModuleSetUpToDate\<close> does.
\<close>

definition VerifyWorkingTreeClean :: "'w SyncEnv \<Rightarrow> 'w \<Rightarrow> error option" where
  "VerifyWorkingTreeClean env w =
     (case GetWorktree env w of
        Some err \<Rightarrow> Some err
      | None \<Rightarrow>
          (case WorktreeStatus env w of
             Inl err \<Rightarrow> Some (Errorf ''could not get worktree status: %v'' [E err])
           | Inr status \<Rightarrow> if IsClean status then None else Some CleanTreeError))"

definition newSync ::
  "'w SyncEnv \<Rightarrow> 'w \<Rightarrow> string \<Rightarrow> string \<Rightarrow> string \<Rightarrow> string \<Rightarrow> error + sync" where
  "newSync env w myVersioningFilename otherVersioningFilename modSetToUpdate myRepoRoot =
     (case GetModuleSet env w modSetToUpdate otherVersioningFilename of
        Inl err \<Rightarrow> Inl (Errorf ''error creating new sync struct: %v'' [E err])
      | Inr otherModuleSet \<Rightarrow>
          (case NewModuleVersioning env w myVersioningFilename myRepoRoot of
             Inl err \<Rightarrow> Inl (Errorf ''could not get my ModuleVersioning: %v'' [E err])
           | Inr myModVersioning \<Rightarrow>
               Inr \<lparr>OtherModuleSetName = modSetToUpdate, OtherModuleSet = otherModuleSet,
                    MyModuleVersioning = myModVersioning\<rparr>))"

text \<open>
  \<^verbatim>\<open>updateAllGoModFiles\<close>: the file paths are collected by ranging over the
  \<^verbatim>\<open>ModPathMap\<close>.
\<close>

definition updateAllGoModFiles ::
  "'w SyncEnv \<Rightarrow> sync \<Rightarrow> 'w \<Rightarrow> error option \<times> 'w \<times> Event list" where
  "updateAllGoModFiles env s w =
     (let modFilePaths = map snd (ModPathMap (MyModuleVersioning s));
          call = CallUpdateGoModFiles modFilePaths (Modules (OtherModuleSet s))
                   (ModuleSet.Version (OtherModuleSet s))
      in case UpdateGoModFiles env modFilePaths (Modules (OtherModuleSet s))
                (ModuleSet.Version (OtherModuleSet s)) w of
           (Some err, w') \<Rightarrow>
             (Some (Errorf ''could not update all go mod files: %v'' [E err]), w', [call])
         | (None, w') \<Rightarrow> (None, w', [call]))"

definition checkModuleSetUpToDate :: "'w SyncEnv \<Rightarrow> 'w \<Rightarrow> error + bool" where
  "checkModuleSetUpToDate env w =
     (case GetWorktree env w of
        Some err \<Rightarrow> Inl err
      | None \<Rightarrow>
          (case WorktreeStatus env w of
             Inl err \<Rightarrow> Inl (Errorf ''could not get worktree status: %v'' [E err])
           | Inr status \<Rightarrow> if IsClean status then Inr True else Inr False))"

definition commitChangesToNewBranch ::
  "'w SyncEnv \<Rightarrow> sync \<Rightarrow> 'w \<Rightarrow> error option \<times> 'w \<times> Event list" where
  "commitChangesToNewBranch env s w =
     (let branchNameElements =
            [''sync'', OtherModuleSetName s, ModuleSet.Version (OtherModuleSet s)];
          branchName = Join branchNameElements ''_'';
          commitMessage =
            ''Sync repo to use '' @ OtherModuleSetName s @ '' with version '' @
              ModuleSet.Version (OtherModuleSet s)
      in case CommitChangesToNewBranch env branchName commitMessage w of
           (res, w') \<Rightarrow> (res, w', [CallCommitChangesToNewBranch branchName commitMessage]))"

text \<open>
  The body of the loop of \<^verbatim>\<open>Run\<close> for one module set: \<open>Some\<close> outcome when
  \<^verbatim>\<open>log.Fatal\<close> ends the process, \<open>None\<close> when the loop goes on (\<^verbatim>\<open>continue\<close>
  or the end of the body).
\<close>

definition Run_moduleSet ::
  "'w SyncEnv \<Rightarrow> 'w \<Rightarrow> string \<Rightarrow> string \<Rightarrow> string \<Rightarrow> bool \<Rightarrow> string \<Rightarrow>
   Outcome option \<times> 'w \<times> Event list" where
  "Run_moduleSet env w myVersioningFile otherVersioningFile myRepoRoot skipModTidy moduleSetName =
     (case newSync env w myVersioningFile otherVersioningFile moduleSetName myRepoRoot of
        Inl err \<Rightarrow> (Some (FatalV [S ''Error creating new sync struct:'', E err]), w, [])
      | Inr s \<Rightarrow>
          (let log1 = [Logged ''===== Module Set: %v ====='' [S moduleSetName]]
           in case updateAllGoModFiles env s w of
                (Some err, w1, ev1) \<Rightarrow>
                  (Some (FatalV [S ''updateAllGoModFiles failed:'', E err]), w1, log1 @ ev1)
              | (None, w1, ev1) \<Rightarrow>
                  (case checkModuleSetUpToDate env w1 of
                     Inl err \<Rightarrow> (Some (FatalV [E err]), w1, log1 @ ev1)
                   | Inr modSetUpToDate \<Rightarrow>
                       (if modSetUpToDate
                        then (None, w1, log1 @ ev1 @
                                [Logged ''Module set already up to date. Skipping...'' []])
                        else
                          (let log2 = [Logged ''Updating versions for module set...'' []];
                               (w2, ev2) =
                                 (if skipModTidy
                                  then (w1, [Logged ''Skipping go mod tidy...'' []])
                                  else (case RunGoModTidy env
                                               (ModPathMap (MyModuleVersioning s)) w1 of
                                          (Some err, w2) \<Rightarrow>
                                            (w2, [CallRunGoModTidy
                                                    (ModPathMap (MyModuleVersioning s)),
                                                  Logged (''WARNING: failed to run '' @
                                                    [CHR 0x27] @ ''go mod tidy'' @ [CHR 0x27] @
                                                    '': %v'') [E err]])
                                        | (None, w2) \<Rightarrow>
                                            (w2, [CallRunGoModTidy
                                                    (ModPathMap (MyModuleVersioning s))])))
                           in case commitChangesToNewBranch env s w2 of
                                (Some err, w3, ev3) \<Rightarrow>
                                  (Some (FatalV [S ''commitChangesToNewBranch failed:'', E err]),
                                   w3, log1 @ ev1 @ log2 @ ev2 @ ev3)
                              | (None, w3, ev3) \<Rightarrow>
                                  (None, w3, log1 @ ev1 @ log2 @ ev2 @ ev3))))))"

fun Run_loop ::
  "'w SyncEnv \<Rightarrow> 'w \<Rightarrow> string \<Rightarrow> string \<Rightarrow> string \<Rightarrow> bool \<Rightarrow> string list \<Rightarrow>
   Outcome option \<times> 'w \<times> Event list" where
  "Run_loop env w myVersioningFile otherVersioningFile myRepoRoot skipModTidy [] = (None, w, [])"
| "Run_loop env w myVersioningFile otherVersioningFile myRepoRoot skipModTidy
     (moduleSetName # rest) =
     (case Run_moduleSet env w myVersioningFile otherVersioningFile myRepoRoot skipModTidy
             moduleSetName of
        (Some fatal, w', ev) \<Rightarrow> (Some fatal, w', ev)
      | (None, w', ev) \<Rightarrow>
          (case Run_loop env w' myVersioningFile otherVersioningFile myRepoRoot skipModTidy rest of
             (res, w'', ev') \<Rightarrow> (res, w'', ev @ ev')))"

text \<open>\<^verbatim>\<open>Run\<close> of package \<^verbatim>\<open>sync\<close>.\<close>

definition sync_Run ::
  "'w SyncEnv \<Rightarrow> 'w \<Rightarrow> string \<Rightarrow> string \<Rightarrow> string \<Rightarrow> string list \<Rightarrow> bool \<Rightarrow> bool \<Rightarrow>
   Outcome \<times> 'w \<times> Event list" where
  "sync_Run env w myVersioningFile otherVersioningFile otherRepoRoot otherModuleSetNames
     allModuleSets skipModTidy =
     (case FindRepoRoot env w of
        Inl err \<Rightarrow> (Fatal ''unable to find repo root: %v'' [E err], w, [])
      | Inr myRepoRoot \<Rightarrow>
          (let log0 = [Logged ''Using repo with root at %s'' [S myRepoRoot]]
           in case (if allModuleSets
                    then GetAllModuleSetNames env w otherVersioningFile otherRepoRoot
                    else Inr otherModuleSetNames) of
                Inl err \<Rightarrow>
                  (FatalV [S ''could not automatically get all module set names:'', E err],
                   w, log0)
              | Inr names \<Rightarrow>
                  (case PlainOpen env w myRepoRoot of
                     Some err \<Rightarrow>
                       (Fatal ''could not open repo at %v: %v'' [S myRepoRoot, E err], w, log0)
                   | None \<Rightarrow>
                       (case VerifyWorkingTreeClean env w of
                          Some err \<Rightarrow>
                            (FatalV [S ''VerifyWorkingTreeClean failed:'', E err], w, log0)
                        | None \<Rightarrow>
                            (case Run_loop env w myVersioningFile otherVersioningFile myRepoRoot
                                    skipModTidy names of
                               (Some fatal, w', ev) \<Rightarrow> (fatal, w', log0 @ ev)
                             | (None, w', ev) \<Rightarrow>
                                 (Returned, w',
                                  log0 @ ev @
                                    [Logged ''Prerelease finished successfully.'' []]))))))"


fun tidyOrCommit :: "Event \<Rightarrow> bool" where
  "tidyOrCommit (CallRunGoModTidy modPathMap) = True"
| "tidyOrCommit (CallCommitChangesToNewBranch branchName commitMessage) = True"
| "tidyOrCommit ev = False"

text \<open>
  The working tree is clean: its status can be read and every file is unmodified. A
  module set is already synced: the sync struct can be built and the rewrite for it
  succeeds and changes nothing.
\<close>

definition alreadySynced ::
  "'w SyncEnv \<Rightarrow> 'w \<Rightarrow> string \<Rightarrow> string \<Rightarrow> string \<Rightarrow> string \<Rightarrow> bool" where
  "alreadySynced env w myVersioningFile otherVersioningFile myRepoRoot moduleSetName =
     (case newSync env w myVersioningFile otherVersioningFile moduleSetName myRepoRoot of
        Inl err \<Rightarrow> False
      | Inr s \<Rightarrow>
          UpdateGoModFiles env (map snd (ModPathMap (MyModuleVersioning s)))
            (Modules (OtherModuleSet s)) (ModuleSet.Version (OtherModuleSet s)) w = (None, w))"

definition treeClean :: "'w SyncEnv \<Rightarrow> 'w \<Rightarrow> bool" where
  "treeClean env w =
     (GetWorktree env w = None \<and>
      (case WorktreeStatus env w of Inl err \<Rightarrow> False | Inr status \<Rightarrow> IsClean status))"

subsection \<open>An example world\<close>

text \<open>
  A small world to run the sync operation in: each go.mod file of the working tree with
  the version it requires of the other repository's modules, the same for the tree of
  the last commit, the branches and the commits made. In the example environment the
  rewrite sets the required version in every file it is given, the status compares the
  working tree with the last commit, \<^verbatim>\<open>go mod tidy\<close> fails, and the commit takes the
  working tree to a new branch.
\<close>

record World =
  files :: "(ModuleFilePath \<times> string) list"
  committed :: "(ModuleFilePath \<times> string) list"
  branches :: "string list"
  commits :: "(string \<times> string) list"

definition exampleStatus :: "World \<Rightarrow> Status" where
  "exampleStatus w =
     map (\<lambda>(path, required).
            (path, \<lparr>Staging = Unmodified,
                    Worktree = (if map_of (committed w) path = Some required
                                then Unmodified else Modified)\<rparr>))
       (files w)"

definition exampleModuleVersioning :: ModuleVersioning where
  "exampleModuleVersioning =
     \<lparr>ModSetMap = validModSetMap,
      ModPathMap = validModPathMap,
      ModInfoMap =
        [''go.opentelemetry.io/test/test1'' \<mapsto>
           \<lparr>ModuleSetName = ''mod-set-1'', Version = ''v1.2.3-RC1+meta''\<rparr>,
         ''go.opentelemetry.io/test3'' \<mapsto>
           \<lparr>ModuleSetName = ''mod-set-2'', Version = ''v0.1.0''\<rparr>,
         ''go.opentelemetry.io/testroot/v2'' \<mapsto>
           \<lparr>ModuleSetName = ''mod-set-3'', Version = ''v2.2.2''\<rparr>]\<rparr>"

definition exampleSync :: sync where
  "exampleSync =
     \<lparr>OtherModuleSetName = ''other-mod-set-1'',
      OtherModuleSet = \<lparr>ModuleSet.Version = ''v1.2.3'',
                         Modules = [''go.opentelemetry.io/other/test1'']\<rparr>,
      MyModuleVersioning = exampleModuleVersioning\<rparr>"

definition exampleSyncEnv :: "World SyncEnv" where
  "exampleSyncEnv =
     \<lparr>FindRepoRoot = (\<lambda>w. Inr ''/repo''),
      GetAllModuleSetNames = (\<lambda>w versioningFile repoRoot. Inr [''other-mod-set-1'']),
      PlainOpen = (\<lambda>w repoRoot. None),
      GetModuleSet = (\<lambda>w modSetName versioningFile.
         if modSetName = ''other-mod-set-1''
         then Inr \<lparr>ModuleSet.Version = ''v1.2.3'',
                   Modules = [''go.opentelemetry.io/other/test1'']\<rparr>
         else Inl (NotFoundError modSetName)),
      NewModuleVersioning = (\<lambda>w versioningFile repoRoot. Inr exampleModuleVersioning),
      UpdateGoModFiles = (\<lambda>modFilePaths modPaths version w.
         (None,
          w\<lparr>files := map (\<lambda>(path, required).
                            if path \<in> set modFilePaths then (path, version)
                            else (path, required)) (files w)\<rparr>)),
      GetWorktree = (\<lambda>w. None),
      WorktreeStatus = (\<lambda>w. Inr (exampleStatus w)),
      RunGoModTidy = (\<lambda>modPathMap w. (Some ErrStorage, w)),
      CommitChangesToNewBranch = (\<lambda>branchName commitMessage w.
         (None,
          w\<lparr>committed := files w,
            branches := branches w @ [branchName],
            commits := commits w @ [(branchName, commitMessage)]\<rparr>))\<rparr>"

definition unsyncedWorld :: World where
  "unsyncedWorld =
     \<lparr>files = [(''/repo/test/test1/go.mod'', ''v1.0.0''), (''/repo/go.mod'', ''v1.0.0'')],
      committed = [(''/repo/test/test1/go.mod'', ''v1.0.0''), (''/repo/go.mod'', ''v1.0.0'')],
      branches = [''main''],
      commits = []\<rparr>"

definition syncedWorld :: World where
  "syncedWorld =
     \<lparr>files = [(''/repo/test/test1/go.mod'', ''v1.2.3''), (''/repo/go.mod'', ''v1.2.3'')],
      committed = [(''/repo/test/test1/go.mod'', ''v1.2.3''), (''/repo/go.mod'', ''v1.2.3'')],
      branches = [''main'', ''sync_other-mod-set-1_v1.2.3''],
      commits = [(''sync_other-mod-set-1_v1.2.3'',
                  ''Sync repo to use other-mod-set-1 with version v1.2.3'')]\<rparr>"

definition dirtyWorld :: World where
  "dirtyWorld =
     unsyncedWorld\<lparr>files := [(''/repo/test/test1/go.mod'', ''v1.0.0''),
                             (''/repo/go.mod'', ''v0.9.0'')]\<rparr>"

text \<open>The unsynced world after the rewrite, before the commit.\<close>

definition rewrittenWorld :: World where
  "rewrittenWorld =
     unsyncedWorld\<lparr>files := [(''/repo/test/test1/go.mod'', ''v1.2.3''),
                             (''/repo/go.mod'', ''v1.2.3'')]\<rparr>"

section \<open>Verification\<close>

subsection \<open>The module versioning index\<close>












subsection \<open>Tag names\<close>

lemma splitPath_nosep: "sep \<notin> set c \<Longrightarrow> splitPath sep c = [c]"
  by (induction c) auto

lemma splitPath_elem: "sep \<notin> set c \<Longrightarrow> splitPath sep (c @ sep # r) = c # splitPath sep r"
  by (induction c) auto

lemma splitPath_absPath:
  "\<forall>e \<in> set elems. sep \<notin> set e \<Longrightarrow> elems \<noteq> [] \<Longrightarrow>
   splitPath sep (absPath sep elems) = [] # elems"
proof (induction elems)
  case Nil
  then show ?case by simp
next
  case (Cons e elems)
  show ?case
  proof (cases elems)
    case Nil
    with Cons.prems show ?thesis by (simp add: absPath_def splitPath_nosep)
  next
    case (Cons e' elems')
    with Cons.prems Cons.IH have ih: "splitPath sep (absPath sep elems) = [] # elems" by simp
    from Cons have "absPath sep elems = sep # e' @ absPath sep elems'" by (simp add: absPath_def)
    then have "absPath sep (e # elems) = sep # e @ sep # e' @ absPath sep elems'"
      by (simp add: absPath_def)
    moreover have "sep \<notin> set e" using Cons.prems by simp
    ultimately show ?thesis using ih Cons
      by (simp add: splitPath_elem absPath_def)
  qed
qed

lemma pathElements_absPath:
  assumes "\<forall>e \<in> set elems. e \<noteq> [] \<and> sep \<notin> set e"
  shows "pathElements sep (absPath sep elems) = elems"
proof (cases elems)
  case Nil
  then show ?thesis by (simp add: pathElements_def absPath_def)
next
  case (Cons e es)
  with assms have "splitPath sep (absPath sep elems) = [] # elems"
    using splitPath_absPath [of elems sep] by auto
  moreover from assms have "filter (\<lambda>e. e \<noteq> []) elems = elems"
    by (simp add: filter_id_conv)
  ultimately show ?thesis by (simp add: pathElements_def)
qed


lemma ModuleFilePathToTagName_absPath:
  assumes "\<forall>e \<in> set (rootElems @ dirElems @ [modFile]). e \<noteq> [] \<and> sep \<notin> set e"
  shows "ModuleFilePathToTagName sep (absPath sep (rootElems @ dirElems @ [modFile]))
           (absPath sep rootElems) =
         Inr (if dirElems = [] then RepoRootTag else Join dirElems ''/'')"
proof -
  from assms have r: "pathElements sep (absPath sep rootElems) = rootElems"
    by (intro pathElements_absPath) auto
  from assms have f: "pathElements sep (absPath sep (rootElems @ dirElems @ [modFile])) =
      rootElems @ dirElems @ [modFile]"
    by (intro pathElements_absPath) auto
  have "relativePath sep (absPath sep rootElems) (absPath sep (rootElems @ dirElems @ [modFile]))
          = Some (dirElems @ [modFile])"
    unfolding relativePath_def r f by simp
  then show ?thesis
    by (simp add: ModuleFilePathToTagName_def butlast_append)
qed

lemma ModulePathsToTagNames_absPath:
  assumes "\<forall>modPath \<in> set modPaths.
             map_of modPathMap modPath =
               Some (absPath sep (rootElems @ dirOf modPath @ [fileOf modPath]))
             \<and> (\<forall>e \<in> set (rootElems @ dirOf modPath @ [fileOf modPath]). e \<noteq> [] \<and> sep \<notin> set e)"
  shows "ModulePathsToTagNames sep modPaths modPathMap (absPath sep rootElems) =
           Inr (map (\<lambda>modPath. if dirOf modPath = [] then RepoRootTag
                               else Join (dirOf modPath) ''/'') modPaths)"
  using assms
proof (induction modPaths)
  case Nil
  then show ?case by simp
next
  case (Cons p ps)
  from Cons.prems have
    m: "map_of modPathMap p = Some (absPath sep (rootElems @ dirOf p @ [fileOf p]))"
    and wf: "\<forall>e \<in> set (rootElems @ dirOf p @ [fileOf p]). e \<noteq> [] \<and> sep \<notin> set e"
    by auto
  from Cons have ih: "ModulePathsToTagNames sep ps modPathMap (absPath sep rootElems) =
           Inr (map (\<lambda>modPath. if dirOf modPath = [] then RepoRootTag
                               else Join (dirOf modPath) ''/'') ps)"
    by simp
  show ?case
    using m ih ModuleFilePathToTagName_absPath [OF wf] by simp
qed

text \<open>
  Claim C2. The tag name derived for a module is the directory of its definition file
  relative to the repository root, written with forward slashes whatever the separator
  of the host is, or the root sentinel when the definition file sits at the root; each
  full tag name is the tag name, a slash and the version, and just the version for the
  root sentinel; and for the set \<^verbatim>\<open>mod-set-1\<close> of the test, whose module
  \<^verbatim>\<open>go.opentelemetry.io/test/test1\<close> is at \<^verbatim>\<open><root>/test/test1/go.mod\<close> with version
  \<^verbatim>\<open>v1.2.3-RC1+meta\<close>, the full tag names are exactly \<^verbatim>\<open>test/test1/v1.2.3-RC1+meta\<close>.
\<close>

theorem ModuleTagName_and_full_tag_names:
  "((\<forall>modPath \<in> set modPaths.
        map_of modPathMap modPath =
          Some (absPath sep (rootElems @ dirOf modPath @ [fileOf modPath]))
        \<and> (\<forall>e \<in> set (rootElems @ dirOf modPath @ [fileOf modPath]). e \<noteq> [] \<and> sep \<notin> set e))
     \<longrightarrow> ModulePathsToTagNames sep modPaths modPathMap (absPath sep rootElems) =
           Inr (map (\<lambda>modPath. if dirOf modPath = [] then RepoRootTag
                               else Join (dirOf modPath) ''/'') modPaths))
   \<and> length (ModuleFullTagNames modRelease) = length (TagNames modRelease)
   \<and> (\<forall>i < length (TagNames modRelease).
        ModuleFullTagNames modRelease ! i =
          (if TagNames modRelease ! i = RepoRootTag then ModSetVersion modRelease
           else TagNames modRelease ! i @ ''/'' @ ModSetVersion modRelease))
   \<and> (\<exists>r. MockModuleSetRelease (CHR ''/'') validModSetMap validModPathMap ''mod-set-1'' ''/repo''
             = Inr r
          \<and> TagNames r = [''test/test1'']
          \<and> ModuleFullTagNames r = [''test/test1/v1.2.3-RC1+meta''])"
proof -
  have ex: "\<exists>r. MockModuleSetRelease (CHR ''/'') validModSetMap validModPathMap ''mod-set-1'' ''/repo''
             = Inr r
          \<and> TagNames r = [''test/test1'']
          \<and> ModuleFullTagNames r = [''test/test1/v1.2.3-RC1+meta'']"
    by (simp add: MockModuleSetRelease_def MockModuleVersioning_def validModSetMap_def
        validModPathMap_def modSetMapIndex_def ModuleFilePathToTagName_def relativePath_def
        pathElements_def ModuleFullTagNames_def fullTagName_def ModSetVersion_def RepoRootTag_def
        Let_def)
  have full: "\<forall>i < length (TagNames modRelease).
        ModuleFullTagNames modRelease ! i =
          (if TagNames modRelease ! i = RepoRootTag then ModSetVersion modRelease
           else TagNames modRelease ! i @ ''/'' @ ModSetVersion modRelease)"
    by (simp add: ModuleFullTagNames_def fullTagName_def)
  have len: "length (ModuleFullTagNames modRelease) = length (TagNames modRelease)"
    by (simp add: ModuleFullTagNames_def)
  from ModulePathsToTagNames_absPath [of modPaths modPathMap sep rootElems dirOf fileOf]
    ex full len show ?thesis by blast
qed

theorem ModuleTagName_and_full_tag_names_witness:
  "map_of validModPathMap ''go.opentelemetry.io/test/test1'' =
     Some (absPath (CHR ''/'') [''repo'', ''test'', ''test1'', ''go.mod''])
   \<and> map_of validModPathMap ''go.opentelemetry.io/testroot/v2'' =
     Some (absPath (CHR ''/'') [''repo'', ''go.mod''])
   \<and> ModulePathsToTagNames (CHR ''/'')
        [''go.opentelemetry.io/test/test1'', ''go.opentelemetry.io/testroot/v2'']
        validModPathMap ''/repo'' = Inr [''test/test1'', RepoRootTag]
   \<and> ModuleFullTagNames
        \<lparr>ModuleVersioning = \<lparr>ModSetMap = [], ModPathMap = [], ModInfoMap = Map.empty\<rparr>,
         ModSetName = ''mod-set-1'',
         ModSet = \<lparr>ModuleSet.Version = ''v1.2.3'', Modules = []\<rparr>,
         TagNames = [''test/test1'', RepoRootTag]\<rparr> ! 1 = ''v1.2.3''"
proof -
  let ?dirOf = "\<lambda>modPath. if modPath = ''go.opentelemetry.io/test/test1''
                          then [''test'', ''test1''] else []"
  let ?fileOf = "\<lambda>modPath :: ModulePath. ''go.mod''"
  let ?paths = "[''go.opentelemetry.io/test/test1'', ''go.opentelemetry.io/testroot/v2'']"
  let ?rel = "\<lparr>ModuleVersioning = \<lparr>ModSetMap = [], ModPathMap = [], ModInfoMap = Map.empty\<rparr>,
         ModSetName = ''mod-set-1'',
         ModSet = \<lparr>ModuleSet.Version = ''v1.2.3'', Modules = []\<rparr>,
         TagNames = [''test/test1'', RepoRootTag]\<rparr>"
  have h: "\<forall>modPath \<in> set ?paths.
        map_of validModPathMap modPath =
          Some (absPath (CHR ''/'') ([''repo''] @ ?dirOf modPath @ [?fileOf modPath]))
        \<and> (\<forall>e \<in> set ([''repo''] @ ?dirOf modPath @ [?fileOf modPath]).
              e \<noteq> [] \<and> CHR ''/'' \<notin> set e)"
    by (simp add: validModPathMap_def absPath_def)
  note inst = ModuleTagName_and_full_tag_names
    [of ?paths validModPathMap "CHR ''/''" "[''repo'']" ?dirOf ?fileOf ?rel]
  from inst h
  have "ModulePathsToTagNames (CHR ''/'') ?paths validModPathMap (absPath (CHR ''/'') [''repo'']) =
           Inr (map (\<lambda>modPath. if ?dirOf modPath = [] then RepoRootTag
                               else Join (?dirOf modPath) ''/'') ?paths)"
    by blast
  then have a: "ModulePathsToTagNames (CHR ''/'') ?paths validModPathMap ''/repo'' =
      Inr [''test/test1'', RepoRootTag]"
    by (simp add: absPath_def)
  have "(1::nat) < length (TagNames ?rel)" by simp
  with inst have "ModuleFullTagNames ?rel ! 1 =
          (if TagNames ?rel ! 1 = RepoRootTag then ModSetVersion ?rel
           else TagNames ?rel ! 1 @ ''/'' @ ModSetVersion ?rel)"
    by blast
  then have b: "ModuleFullTagNames ?rel ! 1 = ''v1.2.3''"
    by (simp add: ModSetVersion_def)
  from h have c: "map_of validModPathMap ''go.opentelemetry.io/test/test1'' =
     Some (absPath (CHR ''/'') [''repo'', ''test'', ''test1'', ''go.mod''])"
    and d: "map_of validModPathMap ''go.opentelemetry.io/testroot/v2'' =
     Some (absPath (CHR ''/'') [''repo'', ''go.mod''])"
    by simp_all
  from a b c d show ?thesis by blast
qed

subsection \<open>The repository and the tagger: shared facts\<close>

lemmas example_repo_defs =
  taggedRepo_def lightweightRepo_def untaggedRepo_def createFailsRepo_def
  rollbackFailsRepo_def exampleTagger_def annotatedOnA_def annotatedObjOnA_def
  commitA_def commitB_def

lemmas git_defs =
  Tag_def TagObject_def Commit_def ResolveRevision_def CreateTag_def DeleteTag_def

lemma exampleRelease_tags:
  "ModuleFullTagNames exampleRelease = [''test/v0.1.0'', ''test/test1/v0.1.0'', ''v0.1.0'']"
  by (simp add: ModuleFullTagNames_def exampleRelease_def fullTagName_def ModSetVersion_def
      exampleModSet_def RepoRootTag_def)




lemma DeleteTag_Inr:
  "DeleteTag repo n = Inr repo' \<Longrightarrow>
   tagRefs repo' = (tagRefs repo)(n := None) \<and> journal repo' = journal repo @ [Deleted n]
   \<and> objects repo' = objects repo \<and> broken repo' = broken repo
   \<and> revisions repo' = revisions repo"
  by (auto simp: DeleteTag_def split: if_splits option.splits)

lemma CreateTag_Inr:
  "CreateTag repo n h msg = Inr repo' \<Longrightarrow>
   tagRefs repo n = None
   \<and> tagRefs repo' = (tagRefs repo)(n \<mapsto> TagID n msg h)
   \<and> objects repo' = (objects repo)(TagID n msg h \<mapsto>
        AnnotatedTag \<lparr>Name = n, Message = msg, Target = h\<rparr>)
   \<and> journal repo' = journal repo @ [Created n h msg]
   \<and> broken repo' = broken repo \<and> revisions repo' = revisions repo"
  by (auto simp: CreateTag_def split: if_splits option.splits)

lemma deleteTags_ok:
  "deleteTags repo L = (None, repo') \<Longrightarrow>
   tagRefs repo' = (\<lambda>n. if n \<in> set L then None else tagRefs repo n)
   \<and> journal repo' = journal repo @ map Deleted L
   \<and> objects repo' = objects repo \<and> broken repo' = broken repo"
proof (induction L arbitrary: repo)
  case Nil
  then show ?case by simp
next
  case (Cons n L)
  from Cons.prems obtain repo1 where d: "DeleteTag repo n = Inr repo1"
    and r: "deleteTags repo1 L = (None, repo')"
    by (auto split: sum.splits)
  from Cons.IH [OF r] DeleteTag_Inr [OF d] show ?case
    by (auto simp: fun_eq_iff)
qed

lemma deleteTags_fail:
  "deleteTags repo L = (Some err, repo') \<Longrightarrow>
   \<exists>j delErr. j < length L
     \<and> err = Errorf ''could not delete tag %v: %v'' [S (L ! j), E delErr]
     \<and> tagRefs repo' = (\<lambda>n. if n \<in> set (take j L) then None else tagRefs repo n)
     \<and> journal repo' = journal repo @ map Deleted (take j L)
     \<and> objects repo' = objects repo \<and> broken repo' = broken repo"
proof (induction L arbitrary: repo)
  case Nil
  then show ?case by simp
next
  case (Cons n L)
  show ?case
  proof (cases "DeleteTag repo n")
    case (Inl e)
    with Cons.prems have "err = Errorf ''could not delete tag %v: %v'' [S n, E e]"
      and "repo' = repo" by auto
    then have "0 < length (n # L)
     \<and> err = Errorf ''could not delete tag %v: %v'' [S ((n # L) ! 0), E e]
     \<and> tagRefs repo' = (\<lambda>m. if m \<in> set (take 0 (n # L)) then None else tagRefs repo m)
     \<and> journal repo' = journal repo @ map Deleted (take 0 (n # L))
     \<and> objects repo' = objects repo \<and> broken repo' = broken repo"
      by simp
    then show ?thesis by blast
  next
    case (Inr repo1)
    with Cons.prems have r: "deleteTags repo1 L = (Some err, repo')" by simp
    from Cons.IH [OF r] obtain j delErr where j: "j < length L"
     and e: "err = Errorf ''could not delete tag %v: %v'' [S (L ! j), E delErr]"
     and t: "tagRefs repo' = (\<lambda>m. if m \<in> set (take j L) then None else tagRefs repo1 m)"
     and jr: "journal repo' = journal repo1 @ map Deleted (take j L)"
     and o: "objects repo' = objects repo1" and b: "broken repo' = broken repo1"
      by blast
    from j e t jr o b DeleteTag_Inr [OF Inr]
    have "Suc j < length (n # L)
     \<and> err = Errorf ''could not delete tag %v: %v'' [S ((n # L) ! Suc j), E delErr]
     \<and> tagRefs repo' = (\<lambda>m. if m \<in> set (take (Suc j) (n # L)) then None else tagRefs repo m)
     \<and> journal repo' = journal repo @ map Deleted (take (Suc j) (n # L))
     \<and> objects repo' = objects repo \<and> broken repo' = broken repo"
      by (auto simp: fun_eq_iff)
    then show ?thesis by blast
  qed
qed

lemma tag_loop_ok:
  "tagAllModules_loop repo h msg tags added = (None, repo') \<Longrightarrow>
   journal repo' = journal repo @ map (\<lambda>n. Created n h msg) tags
   \<and> distinct tags \<and> (\<forall>n \<in> set tags. tagRefs repo n = None)
   \<and> tagRefs repo' = (\<lambda>n. if n \<in> set tags then Some (TagID n msg h) else tagRefs repo n)
   \<and> (\<forall>n \<in> set tags. objects repo' (TagID n msg h) =
          Some (AnnotatedTag \<lparr>Name = n, Message = msg, Target = h\<rparr>))
   \<and> (\<forall>i. (\<forall>n \<in> set tags. i \<noteq> TagID n msg h) \<longrightarrow> objects repo' i = objects repo i)
   \<and> broken repo' = broken repo \<and> revisions repo' = revisions repo"
proof (induction tags arbitrary: repo added)
  case Nil
  then show ?case by simp
next
  case (Cons n tags)
  from Cons.prems obtain repo1 where c: "CreateTag repo n h msg = Inr repo1"
    and r: "tagAllModules_loop repo1 h msg tags (added @ [n]) = (None, repo')"
    by (auto split: sum.splits prod.splits option.splits)
  from Cons.IH [OF r] have
    j: "journal repo' = journal repo1 @ map (\<lambda>n. Created n h msg) tags"
    and d: "distinct tags"
    and fresh: "\<forall>m \<in> set tags. tagRefs repo1 m = None"
    and t: "tagRefs repo' = (\<lambda>m. if m \<in> set tags then Some (TagID m msg h) else tagRefs repo1 m)"
    and o: "\<forall>m \<in> set tags. objects repo' (TagID m msg h) =
          Some (AnnotatedTag \<lparr>Name = m, Message = msg, Target = h\<rparr>)"
    and keep: "\<forall>i. (\<forall>m \<in> set tags. i \<noteq> TagID m msg h) \<longrightarrow> objects repo' i = objects repo1 i"
    and b: "broken repo' = broken repo1" and rv: "revisions repo' = revisions repo1"
    by blast+
  from CreateTag_Inr [OF c] have
    n0: "tagRefs repo n = None"
    and t1: "tagRefs repo1 = (tagRefs repo)(n \<mapsto> TagID n msg h)"
    and o1: "objects repo1 = (objects repo)(TagID n msg h \<mapsto>
        AnnotatedTag \<lparr>Name = n, Message = msg, Target = h\<rparr>)"
    and j1: "journal repo1 = journal repo @ [Created n h msg]"
    and b1: "broken repo1 = broken repo" and rv1: "revisions repo1 = revisions repo"
    by blast+
  have nin: "n \<notin> set tags"
  proof
    assume "n \<in> set tags"
    with fresh have "tagRefs repo1 n = None" by blast
    with t1 show False by simp
  qed
  have fresh0: "\<forall>m \<in> set (n # tags). tagRefs repo m = None"
  proof
    fix m assume m: "m \<in> set (n # tags)"
    show "tagRefs repo m = None"
    proof (cases "m = n")
      case True
      with n0 show ?thesis by simp
    next
      case False
      with m have "m \<in> set tags" by simp
      with fresh have "tagRefs repo1 m = None" by blast
      with t1 False show ?thesis by simp
    qed
  qed
  have tr: "tagRefs repo' =
      (\<lambda>m. if m \<in> set (n # tags) then Some (TagID m msg h) else tagRefs repo m)"
    unfolding t t1 by (auto simp: fun_eq_iff)
  have ob: "\<forall>m \<in> set (n # tags). objects repo' (TagID m msg h) =
          Some (AnnotatedTag \<lparr>Name = m, Message = msg, Target = h\<rparr>)"
  proof
    fix m assume m: "m \<in> set (n # tags)"
    show "objects repo' (TagID m msg h) =
          Some (AnnotatedTag \<lparr>Name = m, Message = msg, Target = h\<rparr>)"
    proof (cases "m \<in> set tags")
      case True
      with o show ?thesis by blast
    next
      case False
      with m have mn: "m = n" by simp
      from nin have "\<forall>m' \<in> set tags. TagID n msg h \<noteq> TagID m' msg h" by auto
      with keep have "objects repo' (TagID n msg h) = objects repo1 (TagID n msg h)" by blast
      with o1 mn show ?thesis by simp
    qed
  qed
  have kp: "\<forall>i. (\<forall>m \<in> set (n # tags). i \<noteq> TagID m msg h) \<longrightarrow> objects repo' i = objects repo i"
  proof (intro allI impI)
    fix i assume a: "\<forall>m \<in> set (n # tags). i \<noteq> TagID m msg h"
    then have "\<forall>m \<in> set tags. i \<noteq> TagID m msg h" and "i \<noteq> TagID n msg h" by auto
    with keep o1 show "objects repo' i = objects repo i" by simp
  qed
  from j j1 d nin fresh0 tr ob kp b b1 rv rv1 show ?case by simp
qed

lemma tag_loop_fail:
  "tagAllModules_loop repo h msg tags added = (Some err, repo') \<Longrightarrow>
   \<exists>k createErr repoK delRes.
     k < length tags
     \<and> journal repoK = journal repo @ map (\<lambda>n. Created n h msg) (take k tags)
     \<and> distinct (take k tags) \<and> (\<forall>n \<in> set (take k tags). tagRefs repo n = None)
     \<and> tagRefs repoK =
         (\<lambda>n. if n \<in> set (take k tags) then Some (TagID n msg h) else tagRefs repo n)
     \<and> tagAllModules_loop repo h msg (take k tags) added = (None, repoK)
     \<and> CreateTag repoK (tags ! k) h msg = Inl createErr
     \<and> deleteTags repoK (added @ take k tags) = (delRes, repo')
     \<and> err = (case delRes of
                None \<Rightarrow> Errorf ''git tag failed for %v: %v'' [S (tags ! k), E createErr]
              | Some delTagsErr \<Rightarrow>
                  Errorf (''git tag failed for %v: %v'' @ [CHR 0x0A] @
                        ''During handling of the above error, failed to not remove all tags: %v'')
                    [S (tags ! k), E createErr, E delTagsErr])"
proof (induction tags arbitrary: repo added)
  case Nil
  then show ?case by simp
next
  case (Cons n tags)
  show ?case
  proof (cases "CreateTag repo n h msg")
    case (Inl createErr)
    obtain delRes repo2 where dt: "deleteTags repo added = (delRes, repo2)"
      by (cases "deleteTags repo added")
    with Cons.prems Inl have r2: "repo2 = repo'"
      and e: "err = (case delRes of
                None \<Rightarrow> Errorf ''git tag failed for %v: %v'' [S n, E createErr]
              | Some delTagsErr \<Rightarrow>
                  Errorf (''git tag failed for %v: %v'' @ [CHR 0x0A] @
                        ''During handling of the above error, failed to not remove all tags: %v'')
                    [S n, E createErr, E delTagsErr])"
      by (auto split: option.splits)
    have "0 < length (n # tags)
     \<and> journal repo = journal repo @ map (\<lambda>n. Created n h msg) (take 0 (n # tags))
     \<and> distinct (take 0 (n # tags)) \<and> (\<forall>m \<in> set (take 0 (n # tags)). tagRefs repo m = None)
     \<and> tagRefs repo =
         (\<lambda>m. if m \<in> set (take 0 (n # tags)) then Some (TagID m msg h) else tagRefs repo m)
     \<and> tagAllModules_loop repo h msg (take 0 (n # tags)) added = (None, repo)
     \<and> CreateTag repo ((n # tags) ! 0) h msg = Inl createErr
     \<and> deleteTags repo (added @ take 0 (n # tags)) = (delRes, repo')
     \<and> err = (case delRes of
                None \<Rightarrow> Errorf ''git tag failed for %v: %v'' [S ((n # tags) ! 0), E createErr]
              | Some delTagsErr \<Rightarrow>
                  Errorf (''git tag failed for %v: %v'' @ [CHR 0x0A] @
                        ''During handling of the above error, failed to not remove all tags: %v'')
                    [S ((n # tags) ! 0), E createErr, E delTagsErr])"
      using Inl dt r2 e by (simp split: option.splits)
    then show ?thesis by blast
  next
    case (Inr repo1)
    with Cons.prems have r: "tagAllModules_loop repo1 h msg tags (added @ [n]) = (Some err, repo')"
      by simp
    from Cons.IH [OF r] obtain k createErr repoK delRes where
      k: "k < length tags"
      and j: "journal repoK = journal repo1 @ map (\<lambda>n. Created n h msg) (take k tags)"
      and d: "distinct (take k tags)"
      and fresh: "\<forall>m \<in> set (take k tags). tagRefs repo1 m = None"
      and t: "tagRefs repoK =
         (\<lambda>m. if m \<in> set (take k tags) then Some (TagID m msg h) else tagRefs repo1 m)"
      and pre: "tagAllModules_loop repo1 h msg (take k tags) (added @ [n]) = (None, repoK)"
      and c: "CreateTag repoK (tags ! k) h msg = Inl createErr"
      and dl: "deleteTags repoK ((added @ [n]) @ take k tags) = (delRes, repo')"
      and e: "err = (case delRes of
                None \<Rightarrow> Errorf ''git tag failed for %v: %v'' [S (tags ! k), E createErr]
              | Some delTagsErr \<Rightarrow>
                  Errorf (''git tag failed for %v: %v'' @ [CHR 0x0A] @
                        ''During handling of the above error, failed to not remove all tags: %v'')
                    [S (tags ! k), E createErr, E delTagsErr])"
      by blast
    from CreateTag_Inr [OF Inr] have
      n0: "tagRefs repo n = None"
      and t1: "tagRefs repo1 = (tagRefs repo)(n \<mapsto> TagID n msg h)"
      and j1: "journal repo1 = journal repo @ [Created n h msg]"
      by blast+
    have nin: "n \<notin> set (take k tags)"
    proof
      assume "n \<in> set (take k tags)"
      with fresh have "tagRefs repo1 n = None" by blast
      with t1 show False by simp
    qed
    have fresh0: "\<forall>m \<in> set (take (Suc k) (n # tags)). tagRefs repo m = None"
    proof
      fix m assume m: "m \<in> set (take (Suc k) (n # tags))"
      show "tagRefs repo m = None"
      proof (cases "m = n")
        case True
        with n0 show ?thesis by simp
      next
        case False
        with m have "m \<in> set (take k tags)" by simp
        with fresh have "tagRefs repo1 m = None" by blast
        with t1 False show ?thesis by simp
      qed
    qed
    have tr: "tagRefs repoK =
      (\<lambda>m. if m \<in> set (take (Suc k) (n # tags)) then Some (TagID m msg h) else tagRefs repo m)"
      unfolding t t1 by (auto simp: fun_eq_iff)
    have "Suc k < length (n # tags)
     \<and> journal repoK = journal repo @ map (\<lambda>n. Created n h msg) (take (Suc k) (n # tags))
     \<and> distinct (take (Suc k) (n # tags))
     \<and> (\<forall>m \<in> set (take (Suc k) (n # tags)). tagRefs repo m = None)
     \<and> tagRefs repoK =
         (\<lambda>m. if m \<in> set (take (Suc k) (n # tags)) then Some (TagID m msg h) else tagRefs repo m)
     \<and> tagAllModules_loop repo h msg (take (Suc k) (n # tags)) added = (None, repoK)
     \<and> CreateTag repoK ((n # tags) ! Suc k) h msg = Inl createErr
     \<and> deleteTags repoK (added @ take (Suc k) (n # tags)) = (delRes, repo')
     \<and> err = (case delRes of
                None \<Rightarrow> Errorf ''git tag failed for %v: %v'' [S ((n # tags) ! Suc k), E createErr]
              | Some delTagsErr \<Rightarrow>
                  Errorf (''git tag failed for %v: %v'' @ [CHR 0x0A] @
                        ''During handling of the above error, failed to not remove all tags: %v'')
                    [S ((n # tags) ! Suc k), E createErr, E delTagsErr])"
      using k j j1 d nin fresh0 tr c dl e pre Inr by (simp split: option.splits)
    then show ?thesis by blast
  qed
qed

lemmas tagger_example_defs =
  tagAllModules_def tagMessage_def ModSetVersion_def exampleRelease_def exampleModSet_def
  ModuleFullTagNames_def fullTagName_def RepoRootTag_def

lemma tagAllModules_fail_shape:
  assumes r: "tagAllModules_loop repo h msg names [] = (Some err, repo')"
  shows "\<exists>k j createErr.
      k < length names \<and> j \<le> k
      \<and> (\<exists>repoK. tagAllModules_loop repo h msg (take k names) [] = (None, repoK)
             \<and> CreateTag repoK (names ! k) h msg = Inl createErr)
      \<and> journal repo' =
          journal repo @ map (\<lambda>n. Created n h msg) (take k names) @ map Deleted (take j names)
      \<and> (j = k \<longrightarrow>
            err = Errorf ''git tag failed for %v: %v'' [S (names ! k), E createErr]
            \<and> tagRefs repo' = tagRefs repo
            \<and> (\<forall>n \<in> set (take k names). tagRefs repo' n = None))
      \<and> (j < k \<longrightarrow>
            (\<exists>delErr.
               err = Errorf (''git tag failed for %v: %v'' @ [CHR 0x0A] @
                        ''During handling of the above error, failed to not remove all tags: %v'')
                       [S (names ! k), E createErr,
                        E (Errorf ''could not delete tag %v: %v'' [S (names ! j), E delErr])])
            \<and> (\<forall>n \<in> set (drop j (take k names)).
                  tagRefs repo' n = Some (TagID n msg h)))"
proof -
  from tag_loop_fail [OF r] obtain k createErr repoK delRes where
    k: "k < length names"
    and jk: "journal repoK = journal repo @ map (\<lambda>n. Created n h msg) (take k names)"
    and d: "distinct (take k names)"
    and fresh: "\<forall>n \<in> set (take k names). tagRefs repo n = None"
    and t: "tagRefs repoK =
         (\<lambda>n. if n \<in> set (take k names) then Some (TagID n msg h) else tagRefs repo n)"
    and pre: "tagAllModules_loop repo h msg (take k names) [] = (None, repoK)"
    and cf: "CreateTag repoK (names ! k) h msg = Inl createErr"
    and dl: "deleteTags repoK (take k names) = (delRes, repo')"
    and e: "err = (case delRes of
                None \<Rightarrow> Errorf ''git tag failed for %v: %v'' [S (names ! k), E createErr]
              | Some delTagsErr \<Rightarrow>
                  Errorf (''git tag failed for %v: %v'' @ [CHR 0x0A] @
                        ''During handling of the above error, failed to not remove all tags: %v'')
                    [S (names ! k), E createErr, E delTagsErr])"
    by auto
  show ?thesis
  proof (cases delRes)
    case None
    with dl have "deleteTags repoK (take k names) = (None, repo')" by simp
    from deleteTags_ok [OF this] have
      t': "tagRefs repo' = (\<lambda>n. if n \<in> set (take k names) then None else tagRefs repoK n)"
      and j': "journal repo' = journal repoK @ map Deleted (take k names)"
      by blast+
    from t' t fresh have same: "tagRefs repo' = tagRefs repo"
      by (auto simp: fun_eq_iff)
    from t' have gone: "\<forall>n \<in> set (take k names). tagRefs repo' n = None" by simp
    from None e have e': "err = Errorf ''git tag failed for %v: %v'' [S (names ! k), E createErr]"
      by simp
    have "k < length names \<and> k \<le> k
      \<and> (\<exists>repoK. tagAllModules_loop repo h msg (take k names) [] = (None, repoK)
             \<and> CreateTag repoK (names ! k) h msg = Inl createErr)
      \<and> journal repo' =
          journal repo @ map (\<lambda>n. Created n h msg) (take k names) @ map Deleted (take k names)
      \<and> (k = k \<longrightarrow>
            err = Errorf ''git tag failed for %v: %v'' [S (names ! k), E createErr]
            \<and> tagRefs repo' = tagRefs repo
            \<and> (\<forall>n \<in> set (take k names). tagRefs repo' n = None))
      \<and> (k < k \<longrightarrow>
            (\<exists>delErr.
               err = Errorf (''git tag failed for %v: %v'' @ [CHR 0x0A] @
                        ''During handling of the above error, failed to not remove all tags: %v'')
                       [S (names ! k), E createErr,
                        E (Errorf ''could not delete tag %v: %v'' [S (names ! k), E delErr])])
            \<and> (\<forall>n \<in> set (drop k (take k names)).
                  tagRefs repo' n = Some (TagID n msg h)))"
      using k j' jk same gone e' pre cf by auto
    then show ?thesis by blast
  next
    case (Some delTagsErr)
    with dl have "deleteTags repoK (take k names) = (Some delTagsErr, repo')" by simp
    from deleteTags_fail [OF this] obtain j delErr where
      j: "j < length (take k names)"
      and de: "delTagsErr = Errorf ''could not delete tag %v: %v'' [S (take k names ! j), E delErr]"
      and t': "tagRefs repo' =
          (\<lambda>n. if n \<in> set (take j (take k names)) then None else tagRefs repoK n)"
      and j': "journal repo' = journal repoK @ map Deleted (take j (take k names))"
      by blast
    from j k have jk': "j < k" by simp
    then have tj: "take j (take k names) = take j names" by (simp add: min_def)
    from jk' have nj: "take k names ! j = names ! j" by simp
    have remain: "\<forall>n \<in> set (drop j (take k names)). tagRefs repo' n = Some (TagID n msg h)"
    proof
      fix n assume n: "n \<in> set (drop j (take k names))"
      have "take k names = take j (take k names) @ drop j (take k names)"
        by (rule append_take_drop_id [symmetric])
      with d have "distinct (take j (take k names) @ drop j (take k names))" by metis
      with n have "n \<notin> set (take j (take k names))" by auto
      moreover from n have "n \<in> set (take k names)" by (rule in_set_dropD)
      ultimately show "tagRefs repo' n = Some (TagID n msg h)" using t' t by simp
    qed
    from Some e de nj have e': "err = Errorf (''git tag failed for %v: %v'' @ [CHR 0x0A] @
                        ''During handling of the above error, failed to not remove all tags: %v'')
                       [S (names ! k), E createErr,
                        E (Errorf ''could not delete tag %v: %v'' [S (names ! j), E delErr])]"
      by simp
    have "k < length names \<and> j \<le> k
      \<and> (\<exists>repoK. tagAllModules_loop repo h msg (take k names) [] = (None, repoK)
             \<and> CreateTag repoK (names ! k) h msg = Inl createErr)
      \<and> journal repo' =
          journal repo @ map (\<lambda>n. Created n h msg) (take k names) @ map Deleted (take j names)
      \<and> (j = k \<longrightarrow>
            err = Errorf ''git tag failed for %v: %v'' [S (names ! k), E createErr]
            \<and> tagRefs repo' = tagRefs repo
            \<and> (\<forall>n \<in> set (take k names). tagRefs repo' n = None))
      \<and> (j < k \<longrightarrow>
            (\<exists>delErr.
               err = Errorf (''git tag failed for %v: %v'' @ [CHR 0x0A] @
                        ''During handling of the above error, failed to not remove all tags: %v'')
                       [S (names ! k), E createErr,
                        E (Errorf ''could not delete tag %v: %v'' [S (names ! j), E delErr])])
            \<and> (\<forall>n \<in> set (drop j (take k names)).
                  tagRefs repo' n = Some (TagID n msg h)))"
      using k jk' j' jk tj remain e' pre cf by auto
    then show ?thesis by blast
  qed
qed

lemma newTagger_Inr:
  "newTagger nmsr repo versioningFilename modSetToUpdate repoRoot hash del = Inr t \<Longrightarrow>
   \<exists>modRelease h.
     nmsr versioningFilename modSetToUpdate repoRoot = Inr modRelease
     \<and> ResolveRevision repo hash = Inr h
     \<and> t = \<lparr>ModuleSetRelease = modRelease, CommitHash = h\<rparr>
     \<and> (del \<longrightarrow> verifyTagsOnCommit (ModuleFullTagNames modRelease) repo h = None)
     \<and> (\<not> del \<longrightarrow> VerifyGitTagsDoNotAlreadyExist modRelease repo = None)"
  by (auto simp: newTagger_def getFullCommitHash_def Let_def
      split: sum.splits option.splits if_splits)

lemma example_newTagger:
  "newTagger exampleNewModuleSetRelease untaggedRepo ''versions.yaml'' ''mod-set-1'' ''/repo''
     ''b0b0'' False = Inr exampleTagger"
  by (simp add: newTagger_def exampleNewModuleSetRelease_def getFullCommitHash_def git_defs
      example_repo_defs VerifyGitTagsDoNotAlreadyExist_def exampleRelease_tags)

subsection \<open>Verification before deleting tags\<close>









subsection \<open>Tagging and its rollback\<close>


text \<open>
  Claim C4, as amended. The tagging step creates the tags one at a time, in the order of
  the full tag names of the set, each on the commit of the tagger. When the creation of
  a tag fails, the tags created before it in this run are deleted in the order of their
  creation, up to the first deletion that fails, and only then the error is returned; it
  names the tag whose creation failed and carries the error of that creation. When the
  rollback completes, the tag references are as they were before the run and none of the
  tags created in it remains. When a deletion fails, the error returned carries both the
  error of the creation and that of the deletion, and the tags that were not yet deleted
  remain.
\<close>

theorem tagAllModules_creates_in_order_and_rolls_back:
  "(tagAllModules t repo = (None, repo') \<longrightarrow>
      journal repo' =
        journal repo @
          map (\<lambda>n. Created n (CommitHash t) (tagMessage t))
            (ModuleFullTagNames (ModuleSetRelease t)))
   \<and> (tagAllModules t repo = (Some err, repo') \<longrightarrow>
      (\<exists>k j createErr.
         k < length (ModuleFullTagNames (ModuleSetRelease t)) \<and> j \<le> k
         \<and> (\<exists>repoK.
               tagAllModules_loop repo (CommitHash t) (tagMessage t)
                 (take k (ModuleFullTagNames (ModuleSetRelease t))) [] = (None, repoK)
               \<and> CreateTag repoK (ModuleFullTagNames (ModuleSetRelease t) ! k) (CommitHash t)
                   (tagMessage t) = Inl createErr)
         \<and> journal repo' =
             journal repo @
               map (\<lambda>n. Created n (CommitHash t) (tagMessage t))
                 (take k (ModuleFullTagNames (ModuleSetRelease t))) @
               map Deleted (take j (ModuleFullTagNames (ModuleSetRelease t)))
         \<and> (j = k \<longrightarrow>
               err = Errorf ''git tag failed for %v: %v''
                       [S (ModuleFullTagNames (ModuleSetRelease t) ! k), E createErr]
               \<and> tagRefs repo' = tagRefs repo
               \<and> (\<forall>n \<in> set (take k (ModuleFullTagNames (ModuleSetRelease t))).
                     tagRefs repo' n = None))
         \<and> (j < k \<longrightarrow>
               (\<exists>delErr.
                  err = Errorf (''git tag failed for %v: %v'' @ [CHR 0x0A] @
                        ''During handling of the above error, failed to not remove all tags: %v'')
                          [S (ModuleFullTagNames (ModuleSetRelease t) ! k), E createErr,
                           E (Errorf ''could not delete tag %v: %v''
                                [S (ModuleFullTagNames (ModuleSetRelease t) ! j), E delErr])])
               \<and> (\<forall>n \<in> set (drop j (take k (ModuleFullTagNames (ModuleSetRelease t)))).
                     tagRefs repo' n = Some (TagID n (tagMessage t) (CommitHash t))))))"
proof -
  have ok: "tagAllModules t repo = (None, repo') \<Longrightarrow>
      journal repo' =
        journal repo @
          map (\<lambda>n. Created n (CommitHash t) (tagMessage t))
            (ModuleFullTagNames (ModuleSetRelease t))"
    unfolding tagAllModules_def using tag_loop_ok by blast
  have fail: "tagAllModules t repo = (Some err, repo') \<Longrightarrow>
      (\<exists>k j createErr.
         k < length (ModuleFullTagNames (ModuleSetRelease t)) \<and> j \<le> k
         \<and> (\<exists>repoK.
               tagAllModules_loop repo (CommitHash t) (tagMessage t)
                 (take k (ModuleFullTagNames (ModuleSetRelease t))) [] = (None, repoK)
               \<and> CreateTag repoK (ModuleFullTagNames (ModuleSetRelease t) ! k) (CommitHash t)
                   (tagMessage t) = Inl createErr)
         \<and> journal repo' =
             journal repo @
               map (\<lambda>n. Created n (CommitHash t) (tagMessage t))
                 (take k (ModuleFullTagNames (ModuleSetRelease t))) @
               map Deleted (take j (ModuleFullTagNames (ModuleSetRelease t)))
         \<and> (j = k \<longrightarrow>
               err = Errorf ''git tag failed for %v: %v''
                       [S (ModuleFullTagNames (ModuleSetRelease t) ! k), E createErr]
               \<and> tagRefs repo' = tagRefs repo
               \<and> (\<forall>n \<in> set (take k (ModuleFullTagNames (ModuleSetRelease t))).
                     tagRefs repo' n = None))
         \<and> (j < k \<longrightarrow>
               (\<exists>delErr.
                  err = Errorf (''git tag failed for %v: %v'' @ [CHR 0x0A] @
                        ''During handling of the above error, failed to not remove all tags: %v'')
                          [S (ModuleFullTagNames (ModuleSetRelease t) ! k), E createErr,
                           E (Errorf ''could not delete tag %v: %v''
                                [S (ModuleFullTagNames (ModuleSetRelease t) ! j), E delErr])])
               \<and> (\<forall>n \<in> set (drop j (take k (ModuleFullTagNames (ModuleSetRelease t)))).
                     tagRefs repo' n = Some (TagID n (tagMessage t) (CommitHash t)))))"
    unfolding tagAllModules_def by (rule tagAllModules_fail_shape)
  from ok fail show ?thesis by blast
qed



theorem tagAllModules_creates_in_order_and_rolls_back_witness:
  "fst (tagAllModules exampleTagger untaggedRepo) = None
   \<and> journal (snd (tagAllModules exampleTagger untaggedRepo)) =
       [Created ''test/v0.1.0'' commitB ''Module set mod-set-1, Version v0.1.0'',
        Created ''test/test1/v0.1.0'' commitB ''Module set mod-set-1, Version v0.1.0'',
        Created ''v0.1.0'' commitB ''Module set mod-set-1, Version v0.1.0'']
   \<and> fst (tagAllModules exampleTagger createFailsRepo) =
       Some (Errorf ''git tag failed for %v: %v'' [S ''v0.1.0'', E ErrStorage])
   \<and> tagRefs (snd (tagAllModules exampleTagger createFailsRepo)) = tagRefs createFailsRepo
   \<and> fst (tagAllModules exampleTagger rollbackFailsRepo) =
       Some (Errorf (''git tag failed for %v: %v'' @ [CHR 0x0A] @
                ''During handling of the above error, failed to not remove all tags: %v'')
               [S ''v0.1.0'', E ErrStorage,
                E (Errorf ''could not delete tag %v: %v'' [S ''test/test1/v0.1.0'', E ErrStorage])])
   \<and> (\<exists>k j. j < k \<and> k < 3
         \<and> journal (snd (tagAllModules exampleTagger rollbackFailsRepo)) =
             map (\<lambda>n. Created n commitB ''Module set mod-set-1, Version v0.1.0'')
               (take k [''test/v0.1.0'', ''test/test1/v0.1.0'', ''v0.1.0'']) @
             map Deleted (take j [''test/v0.1.0'', ''test/test1/v0.1.0'', ''v0.1.0'']))"
proof -
  let ?names = "[''test/v0.1.0'', ''test/test1/v0.1.0'', ''v0.1.0'']"
  let ?msg = "''Module set mod-set-1, Version v0.1.0''"
  let ?short = "Errorf ''git tag failed for %v: %v'' [S ''v0.1.0'', E ErrStorage]"
  let ?long = "Errorf (''git tag failed for %v: %v'' @ [CHR 0x0A] @
                ''During handling of the above error, failed to not remove all tags: %v'')
               [S ''v0.1.0'', E ErrStorage,
                E (Errorf ''could not delete tag %v: %v'' [S ''test/test1/v0.1.0'', E ErrStorage])]"
  have names: "ModuleFullTagNames (ModuleSetRelease exampleTagger) = ?names"
    by (simp add: exampleTagger_def exampleRelease_tags)
  have h: "CommitHash exampleTagger = commitB" by (simp add: exampleTagger_def)
  have m: "tagMessage exampleTagger = ?msg"
    by (simp add: tagger_example_defs exampleTagger_def)
  have j0: "journal untaggedRepo = []" "journal createFailsRepo = []"
    "journal rollbackFailsRepo = []"
    by (simp_all add: example_repo_defs)
  \<comment> \<open>the run that succeeds\<close>
  have a1: "fst (tagAllModules exampleTagger untaggedRepo) = None"
    by (simp add: tagger_example_defs git_defs example_repo_defs)
  then have "tagAllModules exampleTagger untaggedRepo =
      (None, snd (tagAllModules exampleTagger untaggedRepo))"
    by (metis prod.collapse)
  with tagAllModules_creates_in_order_and_rolls_back
    [of exampleTagger untaggedRepo "snd (tagAllModules exampleTagger untaggedRepo)"]
  have a2: "journal (snd (tagAllModules exampleTagger untaggedRepo)) =
      map (\<lambda>n. Created n commitB ?msg) ?names"
    unfolding names h m j0 by simp
  \<comment> \<open>the third creation fails, the rollback completes\<close>
  have b1: "fst (tagAllModules exampleTagger createFailsRepo) = Some ?short"
    by (simp add: tagger_example_defs git_defs example_repo_defs)
  then have "tagAllModules exampleTagger createFailsRepo =
      (Some ?short, snd (tagAllModules exampleTagger createFailsRepo))"
    by (metis prod.collapse)
  with tagAllModules_creates_in_order_and_rolls_back
    [of exampleTagger createFailsRepo "snd (tagAllModules exampleTagger createFailsRepo)" ?short]
  obtain k j createErr where "j \<le> k"
    and eq: "j = k \<longrightarrow> tagRefs (snd (tagAllModules exampleTagger createFailsRepo)) =
        tagRefs createFailsRepo"
    and lt: "j < k \<longrightarrow> (\<exists>delErr. ?short =
        Errorf (''git tag failed for %v: %v'' @ [CHR 0x0A] @
                ''During handling of the above error, failed to not remove all tags: %v'')
          [S (ModuleFullTagNames (ModuleSetRelease exampleTagger) ! k), E createErr,
           E (Errorf ''could not delete tag %v: %v''
                [S (ModuleFullTagNames (ModuleSetRelease exampleTagger) ! j), E delErr])])"
    by blast
  from lt have "\<not> j < k" by auto
  with \<open>j \<le> k\<close> have "j = k" by simp
  with eq have b2: "tagRefs (snd (tagAllModules exampleTagger createFailsRepo)) =
      tagRefs createFailsRepo" by simp
  \<comment> \<open>the third creation fails, and so does the second deletion\<close>
  have c1: "fst (tagAllModules exampleTagger rollbackFailsRepo) = Some ?long"
    by (simp add: tagger_example_defs git_defs example_repo_defs)
  then have "tagAllModules exampleTagger rollbackFailsRepo =
      (Some ?long, snd (tagAllModules exampleTagger rollbackFailsRepo))"
    by (metis prod.collapse)
  with tagAllModules_creates_in_order_and_rolls_back
    [of exampleTagger rollbackFailsRepo "snd (tagAllModules exampleTagger rollbackFailsRepo)" ?long]
  obtain k' j' createErr' where k': "k' < length ?names" and "j' \<le> k'"
    and jr: "journal (snd (tagAllModules exampleTagger rollbackFailsRepo)) =
        map (\<lambda>n. Created n commitB ?msg) (take k' ?names) @ map Deleted (take j' ?names)"
    and eq': "j' = k' \<longrightarrow> ?long =
        Errorf ''git tag failed for %v: %v''
          [S (ModuleFullTagNames (ModuleSetRelease exampleTagger) ! k'), E createErr']"
    unfolding names h m j0 by auto
  from eq' have "j' \<noteq> k'" by auto
  with \<open>j' \<le> k'\<close> have "j' < k'" by simp
  with k' jr have c2: "\<exists>k j. j < k \<and> k < 3
         \<and> journal (snd (tagAllModules exampleTagger rollbackFailsRepo)) =
             map (\<lambda>n. Created n commitB ?msg) (take k ?names) @ map Deleted (take j ?names)"
    by (intro exI [of _ k'] exI [of _ j']) simp
  from a1 a2 b1 b2 c1 c2 show ?thesis by simp
qed

text \<open>
  Claim C4 as stated fails: where the third creation fails and the rollback cannot
  delete \<^verbatim>\<open>test/test1/v0.1.0\<close>, that tag, which was not there before and was created in
  this run, is still there when the error is returned.
\<close>

theorem tagAllModules_rollback_failure_counterexample:
  "tagRefs rollbackFailsRepo ''test/test1/v0.1.0'' = None
   \<and> fst (tagAllModules exampleTagger rollbackFailsRepo) =
       Some (Errorf (''git tag failed for %v: %v'' @ [CHR 0x0A] @
                ''During handling of the above error, failed to not remove all tags: %v'')
               [S ''v0.1.0'', E ErrStorage,
                E (Errorf ''could not delete tag %v: %v'' [S ''test/test1/v0.1.0'', E ErrStorage])])
   \<and> tagRefs (snd (tagAllModules exampleTagger rollbackFailsRepo)) ''test/test1/v0.1.0'' =
       Some (TagID ''test/test1/v0.1.0'' ''Module set mod-set-1, Version v0.1.0'' commitB)"
  by (simp add: tagger_example_defs git_defs example_repo_defs)

subsection \<open>Verification before creating tags\<close>



text \<open>
  Claim C5 as stated fails: the tag \<^verbatim>\<open>test/v0.1.0\<close> of the set exists, but the revision
  given does not resolve, and building the tagger fails with that error, not with the
  error of an existing tag.
\<close>

theorem newTagger_unresolved_revision_counterexample:
  "tagRefs taggedRepo ''test/v0.1.0'' \<noteq> None
   \<and> ''test/v0.1.0'' \<in> set (ModuleFullTagNames exampleRelease)
   \<and> newTagger exampleNewModuleSetRelease taggedRepo ''versions.yaml'' ''mod-set-1'' ''/repo''
        ''ffff'' False =
       Inl (Errorf ''could not get full commit hash of given hash %v: %v''
              [S ''ffff'', E (Errorf ''error getting full hash: %v'' [E ErrReferenceNotFound])])"
  by (simp add: newTagger_def exampleNewModuleSetRelease_def getFullCommitHash_def git_defs
      example_repo_defs exampleRelease_tags)

subsection \<open>One commit for all tags of a run\<close>

lemma tagAllModules_journal:
  "tagAllModules t repo = (res, repo') \<Longrightarrow>
   \<exists>k j. journal repo' =
     journal repo @
       map (\<lambda>n. Created n (CommitHash t) (tagMessage t))
         (take k (ModuleFullTagNames (ModuleSetRelease t))) @
       map Deleted (take j (ModuleFullTagNames (ModuleSetRelease t)))"
proof (cases res)
  case None
  assume "tagAllModules t repo = (res, repo')"
  with None have "journal repo' =
     journal repo @
       map (\<lambda>n. Created n (CommitHash t) (tagMessage t))
         (ModuleFullTagNames (ModuleSetRelease t))"
    unfolding tagAllModules_def using tag_loop_ok by blast
  then have "journal repo' =
     journal repo @
       map (\<lambda>n. Created n (CommitHash t) (tagMessage t))
         (take (length (ModuleFullTagNames (ModuleSetRelease t)))
            (ModuleFullTagNames (ModuleSetRelease t))) @
       map Deleted (take 0 (ModuleFullTagNames (ModuleSetRelease t)))"
    by simp
  then show ?thesis by blast
next
  case (Some err)
  assume "tagAllModules t repo = (res, repo')"
  with Some have "tagAllModules_loop repo (CommitHash t) (tagMessage t)
      (ModuleFullTagNames (ModuleSetRelease t)) [] = (Some err, repo')"
    by (simp add: tagAllModules_def)
  from tagAllModules_fail_shape [OF this] show ?thesis by blast
qed

lemma tagAllModules_ok_targets:
  assumes "tagAllModules t repo = (None, repo')"
  shows "\<forall>n \<in> set (ModuleFullTagNames (ModuleSetRelease t)).
           \<exists>tagRef tagObj. tagRefs repo' n = Some tagRef
              \<and> objects repo' tagRef = Some (AnnotatedTag tagObj)
              \<and> Target tagObj = CommitHash t"
proof
  fix n assume n: "n \<in> set (ModuleFullTagNames (ModuleSetRelease t))"
  from assms have "tagAllModules_loop repo (CommitHash t) (tagMessage t)
      (ModuleFullTagNames (ModuleSetRelease t)) [] = (None, repo')"
    by (simp add: tagAllModules_def)
  from tag_loop_ok [OF this] n have
    "tagRefs repo' n = Some (TagID n (tagMessage t) (CommitHash t))"
    and "objects repo' (TagID n (tagMessage t) (CommitHash t)) =
          Some (AnnotatedTag \<lparr>Name = n, Message = tagMessage t, Target = CommitHash t\<rparr>)"
    by auto
  then show "\<exists>tagRef tagObj. tagRefs repo' n = Some tagRef
              \<and> objects repo' tagRef = Some (AnnotatedTag tagObj)
              \<and> Target tagObj = CommitHash t"
    by simp
qed

text \<open>
  Claim C9. The commit of a tag operation is resolved once, from the revision given,
  when the tagger is built, and stored in it. Every creation of a tag in a run of the
  tagging step, also in one that fails, is made on that stored commit; and after a run
  that succeeds every full tag name of the set is a reference to a tag object whose
  target is that one commit.
\<close>

theorem tags_of_one_run_on_one_commit:
  "(newTagger newModuleSetRelease repo versioningFilename modSetToUpdate repoRoot hash del = Inr t
      \<longrightarrow> ResolveRevision repo hash = Inr (CommitHash t))
   \<and> (tagAllModules t repo = (res, repo') \<longrightarrow>
      (\<exists>k j. journal repo' =
         journal repo @
           map (\<lambda>n. Created n (CommitHash t) (tagMessage t))
             (take k (ModuleFullTagNames (ModuleSetRelease t))) @
           map Deleted (take j (ModuleFullTagNames (ModuleSetRelease t)))))
   \<and> (tagAllModules t repo = (None, repo') \<longrightarrow>
      (\<forall>n \<in> set (ModuleFullTagNames (ModuleSetRelease t)).
         \<exists>tagRef tagObj. tagRefs repo' n = Some tagRef
            \<and> objects repo' tagRef = Some (AnnotatedTag tagObj)
            \<and> Target tagObj = CommitHash t))
   \<and> (tag_Run (Inr repoRoot) newModuleSetRelease repo versioningFilename modSetToUpdate hash
         False = (Returned, repo'') \<longrightarrow>
      (\<exists>modRelease h.
         newModuleSetRelease versioningFilename modSetToUpdate repoRoot = Inr modRelease
         \<and> ResolveRevision repo hash = Inr h
         \<and> (\<forall>n \<in> set (ModuleFullTagNames modRelease).
              \<exists>tagRef tagObj. tagRefs repo'' n = Some tagRef
                 \<and> objects repo'' tagRef = Some (AnnotatedTag tagObj)
                 \<and> Target tagObj = h)))"
proof -
  have a: "newTagger newModuleSetRelease repo versioningFilename modSetToUpdate repoRoot hash del
      = Inr t \<Longrightarrow> ResolveRevision repo hash = Inr (CommitHash t)"
    by (auto dest: newTagger_Inr)
  have d: "tag_Run (Inr repoRoot) newModuleSetRelease repo versioningFilename modSetToUpdate hash
         False = (Returned, repo'') \<Longrightarrow>
      (\<exists>modRelease h.
         newModuleSetRelease versioningFilename modSetToUpdate repoRoot = Inr modRelease
         \<and> ResolveRevision repo hash = Inr h
         \<and> (\<forall>n \<in> set (ModuleFullTagNames modRelease).
              \<exists>tagRef tagObj. tagRefs repo'' n = Some tagRef
                 \<and> objects repo'' tagRef = Some (AnnotatedTag tagObj)
                 \<and> Target tagObj = h))"
  proof -
    assume run: "tag_Run (Inr repoRoot) newModuleSetRelease repo versioningFilename
        modSetToUpdate hash False = (Returned, repo'')"
    then obtain t' where nt: "newTagger newModuleSetRelease repo versioningFilename
        modSetToUpdate repoRoot hash False = Inr t'"
      and ta: "tagAllModules t' repo = (None, repo'')"
      by (auto simp: tag_Run_def split: sum.splits prod.splits option.splits)
    from newTagger_Inr [OF nt] obtain modRelease h where
      "newModuleSetRelease versioningFilename modSetToUpdate repoRoot = Inr modRelease"
      and "ResolveRevision repo hash = Inr h"
      and "t' = \<lparr>ModuleSetRelease = modRelease, CommitHash = h\<rparr>"
      by blast
    with tagAllModules_ok_targets [OF ta] show ?thesis by auto
  qed
  from a d tagAllModules_journal [of t repo res repo'] tagAllModules_ok_targets [of t repo repo']
  show ?thesis by blast
qed

theorem tags_of_one_run_on_one_commit_witness:
  "newTagger exampleNewModuleSetRelease untaggedRepo ''versions.yaml'' ''mod-set-1'' ''/repo''
     ''b0b0'' False = Inr exampleTagger
   \<and> ResolveRevision untaggedRepo ''b0b0'' = Inr commitB
   \<and> fst (tag_Run (Inr ''/repo'') exampleNewModuleSetRelease untaggedRepo ''versions.yaml''
            ''mod-set-1'' ''b0b0'' False) = Returned
   \<and> (\<exists>tagRef tagObj.
         tagRefs (snd (tag_Run (Inr ''/repo'') exampleNewModuleSetRelease untaggedRepo
                         ''versions.yaml'' ''mod-set-1'' ''b0b0'' False)) ''test/v0.1.0''
           = Some tagRef
         \<and> objects (snd (tag_Run (Inr ''/repo'') exampleNewModuleSetRelease untaggedRepo
                         ''versions.yaml'' ''mod-set-1'' ''b0b0'' False)) tagRef
           = Some (AnnotatedTag tagObj)
         \<and> Target tagObj = commitB)
   \<and> (\<exists>tagRef tagObj.
         tagRefs (snd (tag_Run (Inr ''/repo'') exampleNewModuleSetRelease untaggedRepo
                         ''versions.yaml'' ''mod-set-1'' ''b0b0'' False)) ''v0.1.0''
           = Some tagRef
         \<and> objects (snd (tag_Run (Inr ''/repo'') exampleNewModuleSetRelease untaggedRepo
                         ''versions.yaml'' ''mod-set-1'' ''b0b0'' False)) tagRef
           = Some (AnnotatedTag tagObj)
         \<and> Target tagObj = commitB)"
proof -
  let ?run = "tag_Run (Inr ''/repo'') exampleNewModuleSetRelease untaggedRepo ''versions.yaml''
            ''mod-set-1'' ''b0b0'' False"
  note inst = tags_of_one_run_on_one_commit
    [of exampleNewModuleSetRelease untaggedRepo "''versions.yaml''" "''mod-set-1''" "''/repo''"
        "''b0b0''" False exampleTagger None "snd ?run" "snd ?run"]
  from inst example_newTagger
  have r: "ResolveRevision untaggedRepo ''b0b0'' = Inr commitB"
    by (simp add: exampleTagger_def)
  have n: "exampleNewModuleSetRelease ''versions.yaml'' ''mod-set-1'' ''/repo'' = Inr exampleRelease"
    by (simp add: exampleNewModuleSetRelease_def)
  have "fst (tagAllModules exampleTagger untaggedRepo) = None"
    by (simp add: tagger_example_defs exampleTagger_def git_defs example_repo_defs)
  then obtain repo' where "tagAllModules exampleTagger untaggedRepo = (None, repo')"
    by (metis prod.collapse)
  then have f: "fst ?run = Returned"
    by (simp add: tag_Run_def example_newTagger)
  then have "?run = (Returned, snd ?run)" by (metis prod.collapse)
  with inst obtain modRelease h where
    "exampleNewModuleSetRelease ''versions.yaml'' ''mod-set-1'' ''/repo'' = Inr modRelease"
    and "ResolveRevision untaggedRepo ''b0b0'' = Inr h"
    and "\<forall>n \<in> set (ModuleFullTagNames modRelease).
              \<exists>tagRef tagObj. tagRefs (snd ?run) n = Some tagRef
                 \<and> objects (snd ?run) tagRef = Some (AnnotatedTag tagObj)
                 \<and> Target tagObj = h"
    by blast
  with r n exampleRelease_tags have
    "\<forall>n \<in> set [''test/v0.1.0'', ''test/test1/v0.1.0'', ''v0.1.0''].
              \<exists>tagRef tagObj. tagRefs (snd ?run) n = Some tagRef
                 \<and> objects (snd ?run) tagRef = Some (AnnotatedTag tagObj)
                 \<and> Target tagObj = commitB"
    by simp
  with example_newTagger r f show ?thesis by simp
qed

subsection \<open>The sync operation: shared facts\<close>

lemma updateAllGoModFiles_events:
  "updateAllGoModFiles env s w = (res, w1, ev1) \<Longrightarrow>
   ev1 = [CallUpdateGoModFiles (map snd (ModPathMap (MyModuleVersioning s)))
            (Modules (OtherModuleSet s)) (ModuleSet.Version (OtherModuleSet s))]
   \<and> w1 = snd (UpdateGoModFiles env (map snd (ModPathMap (MyModuleVersioning s)))
              (Modules (OtherModuleSet s)) (ModuleSet.Version (OtherModuleSet s)) w)"
  by (auto simp: updateAllGoModFiles_def Let_def split: prod.splits option.splits)

lemma Run_moduleSet_up_to_date:
  "newSync env w myVersioningFile otherVersioningFile moduleSetName myRepoRoot = Inr s \<Longrightarrow>
   updateAllGoModFiles env s w = (None, w1, ev1) \<Longrightarrow>
   checkModuleSetUpToDate env w1 = Inr True \<Longrightarrow>
   Run_moduleSet env w myVersioningFile otherVersioningFile myRepoRoot skipModTidy moduleSetName
     = (None, w1,
        [Logged ''===== Module Set: %v ====='' [S moduleSetName]] @ ev1 @
        [Logged ''Module set already up to date. Skipping...'' []])"
  by (simp add: Run_moduleSet_def)

lemma treeClean_checks:
  "treeClean env w \<Longrightarrow>
   VerifyWorkingTreeClean env w = None \<and> checkModuleSetUpToDate env w = Inr True"
  by (auto simp: treeClean_def VerifyWorkingTreeClean_def checkModuleSetUpToDate_def
      split: sum.splits)

lemma newSync_Inr:
  "newSync env w myVersioningFile otherVersioningFile moduleSetName myRepoRoot = Inr s \<Longrightarrow>
   OtherModuleSetName s = moduleSetName
   \<and> GetModuleSet env w moduleSetName otherVersioningFile = Inr (OtherModuleSet s)"
  by (auto simp: newSync_def split: sum.splits)

lemma commitChangesToNewBranch_eq:
  "commitChangesToNewBranch env s w =
     (fst (CommitChangesToNewBranch env
             (''sync_'' @ OtherModuleSetName s @ ''_'' @ ModuleSet.Version (OtherModuleSet s))
             (''Sync repo to use '' @ OtherModuleSetName s @ '' with version '' @
                ModuleSet.Version (OtherModuleSet s)) w),
      snd (CommitChangesToNewBranch env
             (''sync_'' @ OtherModuleSetName s @ ''_'' @ ModuleSet.Version (OtherModuleSet s))
             (''Sync repo to use '' @ OtherModuleSetName s @ '' with version '' @
                ModuleSet.Version (OtherModuleSet s)) w),
      [CallCommitChangesToNewBranch
         (''sync_'' @ OtherModuleSetName s @ ''_'' @ ModuleSet.Version (OtherModuleSet s))
         (''Sync repo to use '' @ OtherModuleSetName s @ '' with version '' @
            ModuleSet.Version (OtherModuleSet s))])"
  by (simp add: commitChangesToNewBranch_def Let_def split: prod.splits)

lemmas sync_example_defs =
  exampleSyncEnv_def exampleStatus_def IsClean_def unsyncedWorld_def syncedWorld_def
  dirtyWorld_def rewrittenWorld_def

lemma example_newSync:
  "newSync exampleSyncEnv w ''versions.yaml'' ''other.yaml'' ''other-mod-set-1'' ''/repo''
     = Inr exampleSync"
  by (simp add: newSync_def exampleSyncEnv_def exampleSync_def)

lemma example_paths:
  "map snd validModPathMap =
     [''/repo/test/test1/go.mod'', ''/repo/test/go.mod'', ''/repo/go.mod'']"
  "Modules (OtherModuleSet exampleSync) = [''go.opentelemetry.io/other/test1'']"
  "ModuleSet.Version (OtherModuleSet exampleSync) = ''v1.2.3''"
  "OtherModuleSetName exampleSync = ''other-mod-set-1''"
  "ModPathMap (MyModuleVersioning exampleSync) = validModPathMap"
  by (simp_all add: exampleSync_def exampleModuleVersioning_def validModPathMap_def)

lemma example_update_unsynced:
  "updateAllGoModFiles exampleSyncEnv exampleSync unsyncedWorld =
     (None, rewrittenWorld,
      [CallUpdateGoModFiles [''/repo/test/test1/go.mod'', ''/repo/test/go.mod'', ''/repo/go.mod'']
         [''go.opentelemetry.io/other/test1''] ''v1.2.3''])"
  by (simp add: updateAllGoModFiles_def example_paths Let_def sync_example_defs)

lemma example_update_synced:
  "updateAllGoModFiles exampleSyncEnv exampleSync syncedWorld =
     (None, syncedWorld,
      [CallUpdateGoModFiles [''/repo/test/test1/go.mod'', ''/repo/test/go.mod'', ''/repo/go.mod'']
         [''go.opentelemetry.io/other/test1''] ''v1.2.3''])"
  by (simp add: updateAllGoModFiles_def example_paths Let_def sync_example_defs)

lemma example_checks:
  "checkModuleSetUpToDate exampleSyncEnv rewrittenWorld = Inr False"
  "checkModuleSetUpToDate exampleSyncEnv syncedWorld = Inr True"
  "treeClean exampleSyncEnv syncedWorld"
  "treeClean exampleSyncEnv unsyncedWorld"
  by (simp_all add: checkModuleSetUpToDate_def treeClean_def sync_example_defs)

lemma example_tidy:
  "RunGoModTidy exampleSyncEnv validModPathMap rewrittenWorld = (Some ErrStorage, rewrittenWorld)"
  by (simp add: exampleSyncEnv_def)

lemma example_commit:
  "commitChangesToNewBranch exampleSyncEnv exampleSync rewrittenWorld =
     (None, syncedWorld,
      [CallCommitChangesToNewBranch ''sync_other-mod-set-1_v1.2.3''
         ''Sync repo to use other-mod-set-1 with version v1.2.3''])"
  by (simp add: commitChangesToNewBranch_def example_paths Let_def sync_example_defs)

lemma example_Run_moduleSet_unsynced:
  "Run_moduleSet exampleSyncEnv unsyncedWorld ''versions.yaml'' ''other.yaml'' ''/repo'' False
        ''other-mod-set-1'' =
      (None, syncedWorld,
       [Logged ''===== Module Set: %v ====='' [S ''other-mod-set-1''],
        CallUpdateGoModFiles [''/repo/test/test1/go.mod'', ''/repo/test/go.mod'', ''/repo/go.mod'']
          [''go.opentelemetry.io/other/test1''] ''v1.2.3'',
        Logged ''Updating versions for module set...'' [],
        CallRunGoModTidy validModPathMap,
        Logged (''WARNING: failed to run '' @ [CHR 0x27] @ ''go mod tidy'' @ [CHR 0x27] @ '': %v'')
          [E ErrStorage],
        CallCommitChangesToNewBranch ''sync_other-mod-set-1_v1.2.3''
          ''Sync repo to use other-mod-set-1 with version v1.2.3''])"
  by (simp add: Run_moduleSet_def example_newSync example_update_unsynced example_checks
      example_paths example_tidy example_commit)

subsection \<open>Sync is idempotent\<close>

lemma Run_moduleSet_alreadySynced:
  assumes c: "treeClean env w"
    and a: "alreadySynced env w myVersioningFile otherVersioningFile myRepoRoot moduleSetName"
  shows "\<exists>ev. Run_moduleSet env w myVersioningFile otherVersioningFile myRepoRoot skipModTidy
            moduleSetName = (None, w, ev) \<and> list_all (\<lambda>e. \<not> tidyOrCommit e) ev"
proof -
  from a obtain s where
    s: "newSync env w myVersioningFile otherVersioningFile moduleSetName myRepoRoot = Inr s"
    and u: "UpdateGoModFiles env (map snd (ModPathMap (MyModuleVersioning s)))
            (Modules (OtherModuleSet s)) (ModuleSet.Version (OtherModuleSet s)) w = (None, w)"
    by (auto simp: alreadySynced_def split: sum.splits)
  from u have up: "updateAllGoModFiles env s w =
      (None, w, [CallUpdateGoModFiles (map snd (ModPathMap (MyModuleVersioning s)))
            (Modules (OtherModuleSet s)) (ModuleSet.Version (OtherModuleSet s))])"
    by (simp add: updateAllGoModFiles_def Let_def)
  from treeClean_checks [OF c] have "checkModuleSetUpToDate env w = Inr True" by simp
  from Run_moduleSet_up_to_date [OF s up this, of skipModTidy] show ?thesis by simp
qed

lemma Run_loop_alreadySynced:
  assumes c: "treeClean env w"
  shows "\<forall>name \<in> set names.
           alreadySynced env w myVersioningFile otherVersioningFile myRepoRoot name \<Longrightarrow>
         \<exists>ev. Run_loop env w myVersioningFile otherVersioningFile myRepoRoot skipModTidy names
                 = (None, w, ev) \<and> list_all (\<lambda>e. \<not> tidyOrCommit e) ev"
proof (induction names)
  case Nil
  then show ?case by simp
next
  case (Cons name names)
  then have a: "alreadySynced env w myVersioningFile otherVersioningFile myRepoRoot name"
    and rest: "\<forall>name \<in> set names.
           alreadySynced env w myVersioningFile otherVersioningFile myRepoRoot name"
    by simp_all
  from Run_moduleSet_alreadySynced [OF c a, of skipModTidy] obtain ev where
    b: "Run_moduleSet env w myVersioningFile otherVersioningFile myRepoRoot skipModTidy name
          = (None, w, ev)" and e: "list_all (\<lambda>e. \<not> tidyOrCommit e) ev" by blast
  from Cons.IH [OF rest] obtain ev' where
    l: "Run_loop env w myVersioningFile otherVersioningFile myRepoRoot skipModTidy names
          = (None, w, ev')" and e': "list_all (\<lambda>e. \<not> tidyOrCommit e) ev'" by blast
  from b l e e' show ?case by simp
qed

text \<open>
  Claim C6. After the rewrite for a module set the status of the working tree is read,
  and when it is clean the set is skipped: the body of the loop ends there, with no
  tidy step, no branch and no commit. Hence a run of sync on a tree that is already
  synced (the working tree is clean and the rewrite for every module set changes
  nothing) returns with the world as it was, so with no change of the working tree, no
  new branch and no new commit, and without a call that tidies or commits.
\<close>

theorem sync_skips_when_up_to_date:
  "(newSync env w myVersioningFile otherVersioningFile moduleSetName myRepoRoot = Inr s
      \<and> updateAllGoModFiles env s w = (None, w1, ev1)
      \<and> checkModuleSetUpToDate env w1 = Inr True \<longrightarrow>
      Run_moduleSet env w myVersioningFile otherVersioningFile myRepoRoot skipModTidy
        moduleSetName =
      (None, w1,
       [Logged ''===== Module Set: %v ====='' [S moduleSetName],
        CallUpdateGoModFiles (map snd (ModPathMap (MyModuleVersioning s)))
          (Modules (OtherModuleSet s)) (ModuleSet.Version (OtherModuleSet s)),
        Logged ''Module set already up to date. Skipping...'' []]))
   \<and> (FindRepoRoot env w = Inr myRepoRoot
      \<and> (if allModuleSets then GetAllModuleSetNames env w otherVersioningFile otherRepoRoot
          else Inr otherModuleSetNames) = Inr names
      \<and> PlainOpen env w myRepoRoot = None
      \<and> treeClean env w
      \<and> (\<forall>name \<in> set names.
            alreadySynced env w myVersioningFile otherVersioningFile myRepoRoot name) \<longrightarrow>
      (\<exists>events.
         sync_Run env w myVersioningFile otherVersioningFile otherRepoRoot otherModuleSetNames
           allModuleSets skipModTidy = (Returned, w, events)
         \<and> list_all (\<lambda>e. \<not> tidyOrCommit e) events))"
proof -
  have a: "newSync env w myVersioningFile otherVersioningFile moduleSetName myRepoRoot = Inr s
      \<and> updateAllGoModFiles env s w = (None, w1, ev1)
      \<and> checkModuleSetUpToDate env w1 = Inr True \<Longrightarrow>
      Run_moduleSet env w myVersioningFile otherVersioningFile myRepoRoot skipModTidy
        moduleSetName =
      (None, w1,
       [Logged ''===== Module Set: %v ====='' [S moduleSetName],
        CallUpdateGoModFiles (map snd (ModPathMap (MyModuleVersioning s)))
          (Modules (OtherModuleSet s)) (ModuleSet.Version (OtherModuleSet s)),
        Logged ''Module set already up to date. Skipping...'' []])"
  proof -
    assume h: "newSync env w myVersioningFile otherVersioningFile moduleSetName myRepoRoot = Inr s
      \<and> updateAllGoModFiles env s w = (None, w1, ev1)
      \<and> checkModuleSetUpToDate env w1 = Inr True"
    then have n: "newSync env w myVersioningFile otherVersioningFile moduleSetName myRepoRoot
        = Inr s"
      and u: "updateAllGoModFiles env s w = (None, w1, ev1)"
      and c: "checkModuleSetUpToDate env w1 = Inr True"
      by blast+
    from updateAllGoModFiles_events [OF u]
    have ev: "ev1 = [CallUpdateGoModFiles (map snd (ModPathMap (MyModuleVersioning s)))
            (Modules (OtherModuleSet s)) (ModuleSet.Version (OtherModuleSet s))]"
      by blast
    show ?thesis
      unfolding Run_moduleSet_up_to_date [OF n u c] ev by simp
  qed
  have b: "FindRepoRoot env w = Inr myRepoRoot
      \<and> (if allModuleSets then GetAllModuleSetNames env w otherVersioningFile otherRepoRoot
          else Inr otherModuleSetNames) = Inr names
      \<and> PlainOpen env w myRepoRoot = None
      \<and> treeClean env w
      \<and> (\<forall>name \<in> set names.
            alreadySynced env w myVersioningFile otherVersioningFile myRepoRoot name) \<Longrightarrow>
      (\<exists>events.
         sync_Run env w myVersioningFile otherVersioningFile otherRepoRoot otherModuleSetNames
           allModuleSets skipModTidy = (Returned, w, events)
         \<and> list_all (\<lambda>e. \<not> tidyOrCommit e) events)"
  proof -
    assume h: "FindRepoRoot env w = Inr myRepoRoot
      \<and> (if allModuleSets then GetAllModuleSetNames env w otherVersioningFile otherRepoRoot
          else Inr otherModuleSetNames) = Inr names
      \<and> PlainOpen env w myRepoRoot = None
      \<and> treeClean env w
      \<and> (\<forall>name \<in> set names.
            alreadySynced env w myVersioningFile otherVersioningFile myRepoRoot name)"
    then have f: "FindRepoRoot env w = Inr myRepoRoot"
      and g: "(if allModuleSets then GetAllModuleSetNames env w otherVersioningFile otherRepoRoot
          else Inr otherModuleSetNames) = Inr names"
      and p: "PlainOpen env w myRepoRoot = None"
      and c: "treeClean env w" and al: "\<forall>name \<in> set names.
            alreadySynced env w myVersioningFile otherVersioningFile myRepoRoot name"
      by blast+
    from Run_loop_alreadySynced [OF c al, of skipModTidy] obtain ev where
      l: "Run_loop env w myVersioningFile otherVersioningFile myRepoRoot skipModTidy names
                 = (None, w, ev)" and e: "list_all (\<lambda>e. \<not> tidyOrCommit e) ev" by blast
    from treeClean_checks [OF c] have v: "VerifyWorkingTreeClean env w = None" by simp
    have "sync_Run env w myVersioningFile otherVersioningFile otherRepoRoot
        otherModuleSetNames allModuleSets skipModTidy =
        (Returned, w,
         [Logged ''Using repo with root at %s'' [S myRepoRoot]] @ ev @
         [Logged ''Prerelease finished successfully.'' []])"
      by (simp only: sync_Run_def f g p v l Let_def sum.case option.case prod.case)
    with e show ?thesis by simp
  qed
  from a b show ?thesis by blast
qed

theorem sync_skips_when_up_to_date_witness:
  "fst (snd (sync_Run exampleSyncEnv unsyncedWorld ''versions.yaml'' ''other.yaml'' ''/other''
               [''other-mod-set-1''] False False)) = syncedWorld
   \<and> treeClean exampleSyncEnv syncedWorld
   \<and> alreadySynced exampleSyncEnv syncedWorld ''versions.yaml'' ''other.yaml'' ''/repo''
        ''other-mod-set-1''
   \<and> (\<exists>events.
         sync_Run exampleSyncEnv syncedWorld ''versions.yaml'' ''other.yaml'' ''/other''
           [''other-mod-set-1''] False False = (Returned, syncedWorld, events)
         \<and> list_all (\<lambda>e. \<not> tidyOrCommit e) events)
   \<and> Run_moduleSet exampleSyncEnv syncedWorld ''versions.yaml'' ''other.yaml'' ''/repo'' False
        ''other-mod-set-1'' =
      (None, syncedWorld,
       [Logged ''===== Module Set: %v ====='' [S ''other-mod-set-1''],
        CallUpdateGoModFiles [''/repo/test/test1/go.mod'', ''/repo/test/go.mod'', ''/repo/go.mod'']
          [''go.opentelemetry.io/other/test1''] ''v1.2.3'',
        Logged ''Module set already up to date. Skipping...'' []])"
proof -
  have first: "fst (snd (sync_Run exampleSyncEnv unsyncedWorld ''versions.yaml'' ''other.yaml''
               ''/other'' [''other-mod-set-1''] False False)) = syncedWorld"
  proof -
    have f: "FindRepoRoot exampleSyncEnv unsyncedWorld = Inr ''/repo''"
      and p: "PlainOpen exampleSyncEnv unsyncedWorld ''/repo'' = None"
      by (simp_all add: exampleSyncEnv_def)
    from treeClean_checks [OF example_checks(4)]
    have v: "VerifyWorkingTreeClean exampleSyncEnv unsyncedWorld = None" by simp
    show ?thesis
      by (simp add: sync_Run_def f p v example_Run_moduleSet_unsynced)
  qed
  have al: "alreadySynced exampleSyncEnv syncedWorld ''versions.yaml'' ''other.yaml'' ''/repo''
        ''other-mod-set-1''"
  proof -
    have "UpdateGoModFiles exampleSyncEnv
        [''/repo/test/test1/go.mod'', ''/repo/test/go.mod'', ''/repo/go.mod'']
        [''go.opentelemetry.io/other/test1''] ''v1.2.3'' syncedWorld = (None, syncedWorld)"
      by (simp add: sync_example_defs)
    then show ?thesis
      by (simp add: alreadySynced_def example_newSync example_paths)
  qed
  have f: "FindRepoRoot exampleSyncEnv syncedWorld = Inr ''/repo''"
    and p: "PlainOpen exampleSyncEnv syncedWorld ''/repo'' = None"
    by (simp_all add: exampleSyncEnv_def)
  note inst = sync_skips_when_up_to_date
    [of exampleSyncEnv syncedWorld "''versions.yaml''" "''other.yaml''" "''other-mod-set-1''"
        "''/repo''" exampleSync syncedWorld _ False False "''/other''" "[''other-mod-set-1'']"
        "[''other-mod-set-1'']"]
  from inst f p example_checks(3) al
  have run: "\<exists>events.
         sync_Run exampleSyncEnv syncedWorld ''versions.yaml'' ''other.yaml'' ''/other''
           [''other-mod-set-1''] False False = (Returned, syncedWorld, events)
         \<and> list_all (\<lambda>e. \<not> tidyOrCommit e) events"
    by simp
  from inst example_newSync example_update_synced example_checks(2)
  have body: "Run_moduleSet exampleSyncEnv syncedWorld ''versions.yaml'' ''other.yaml'' ''/repo''
        False ''other-mod-set-1'' =
      (None, syncedWorld,
       [Logged ''===== Module Set: %v ====='' [S ''other-mod-set-1''],
        CallUpdateGoModFiles [''/repo/test/test1/go.mod'', ''/repo/test/go.mod'', ''/repo/go.mod'']
          [''go.opentelemetry.io/other/test1''] ''v1.2.3'',
        Logged ''Module set already up to date. Skipping...'' []])"
    by (simp add: example_paths)
  from first example_checks(3) al run body show ?thesis by blast
qed

subsection \<open>Sync requires a clean working tree\<close>




subsection \<open>The branch and the commit message of sync\<close>

lemma Run_moduleSet_commit_events:
  assumes r: "Run_moduleSet env w myVersioningFile otherVersioningFile myRepoRoot skipModTidy
                moduleSetName = (res, w', ev)"
    and m: "CallCommitChangesToNewBranch branchName commitMessage \<in> set ev"
  shows "\<exists>s. newSync env w myVersioningFile otherVersioningFile moduleSetName myRepoRoot = Inr s
     \<and> branchName =
         ''sync_'' @ OtherModuleSetName s @ ''_'' @ ModuleSet.Version (OtherModuleSet s)
     \<and> commitMessage =
         ''Sync repo to use '' @ OtherModuleSetName s @ '' with version '' @
           ModuleSet.Version (OtherModuleSet s)"
proof (cases "newSync env w myVersioningFile otherVersioningFile moduleSetName myRepoRoot")
  case (Inl err)
  with r m show ?thesis by (simp add: Run_moduleSet_def)
next
  case (Inr s)
  obtain ures w1 ev1 where u: "updateAllGoModFiles env s w = (ures, w1, ev1)"
    by (cases "updateAllGoModFiles env s w") auto
  from updateAllGoModFiles_events [OF u] have ev1: "ev1 =
      [CallUpdateGoModFiles (map snd (ModPathMap (MyModuleVersioning s)))
         (Modules (OtherModuleSet s)) (ModuleSet.Version (OtherModuleSet s))]" by blast
  let ?b = "''sync_'' @ OtherModuleSetName s @ ''_'' @ ModuleSet.Version (OtherModuleSet s)"
  let ?m = "''Sync repo to use '' @ OtherModuleSetName s @ '' with version '' @
           ModuleSet.Version (OtherModuleSet s)"
  have "branchName = ?b \<and> commitMessage = ?m"
    using r m Inr u ev1
    by (auto simp: Run_moduleSet_def Let_def commitChangesToNewBranch_eq
        split: option.splits sum.splits if_splits prod.splits)
  with Inr show ?thesis by blast
qed

text \<open>
  Claim C8. The commit for a module set with name N and version V is made on a new
  branch named \<^verbatim>\<open>sync_N_V\<close>, the three elements joined by underscores, with the message
  \<^verbatim>\<open>Sync repo to use N with version V\<close>; and every commit that the body of the loop
  makes for a module set is that one, with the name given and the version that the
  other repository's versioning file has for it.
\<close>

theorem sync_branch_name_and_commit_message:
  "commitChangesToNewBranch env s w =
     (fst (CommitChangesToNewBranch env
             (''sync_'' @ OtherModuleSetName s @ ''_'' @ ModuleSet.Version (OtherModuleSet s))
             (''Sync repo to use '' @ OtherModuleSetName s @ '' with version '' @
                ModuleSet.Version (OtherModuleSet s)) w),
      snd (CommitChangesToNewBranch env
             (''sync_'' @ OtherModuleSetName s @ ''_'' @ ModuleSet.Version (OtherModuleSet s))
             (''Sync repo to use '' @ OtherModuleSetName s @ '' with version '' @
                ModuleSet.Version (OtherModuleSet s)) w),
      [CallCommitChangesToNewBranch
         (''sync_'' @ OtherModuleSetName s @ ''_'' @ ModuleSet.Version (OtherModuleSet s))
         (''Sync repo to use '' @ OtherModuleSetName s @ '' with version '' @
            ModuleSet.Version (OtherModuleSet s))])
   \<and> (Run_moduleSet env w myVersioningFile otherVersioningFile myRepoRoot skipModTidy
         moduleSetName = (res, w', ev)
      \<and> CallCommitChangesToNewBranch branchName commitMessage \<in> set ev \<longrightarrow>
      (\<exists>otherModuleSet.
         GetModuleSet env w moduleSetName otherVersioningFile = Inr otherModuleSet
         \<and> branchName =
             ''sync_'' @ moduleSetName @ ''_'' @ ModuleSet.Version otherModuleSet
         \<and> commitMessage =
             ''Sync repo to use '' @ moduleSetName @ '' with version '' @
               ModuleSet.Version otherModuleSet))"
proof -
  have b: "Run_moduleSet env w myVersioningFile otherVersioningFile myRepoRoot skipModTidy
         moduleSetName = (res, w', ev)
      \<and> CallCommitChangesToNewBranch branchName commitMessage \<in> set ev \<Longrightarrow>
      (\<exists>otherModuleSet.
         GetModuleSet env w moduleSetName otherVersioningFile = Inr otherModuleSet
         \<and> branchName =
             ''sync_'' @ moduleSetName @ ''_'' @ ModuleSet.Version otherModuleSet
         \<and> commitMessage =
             ''Sync repo to use '' @ moduleSetName @ '' with version '' @
               ModuleSet.Version otherModuleSet)"
  proof -
    assume h: "Run_moduleSet env w myVersioningFile otherVersioningFile myRepoRoot skipModTidy
         moduleSetName = (res, w', ev)
      \<and> CallCommitChangesToNewBranch branchName commitMessage \<in> set ev"
    then have h1: "Run_moduleSet env w myVersioningFile otherVersioningFile myRepoRoot
         skipModTidy moduleSetName = (res, w', ev)"
      and h2: "CallCommitChangesToNewBranch branchName commitMessage \<in> set ev"
      by simp_all
    from Run_moduleSet_commit_events [OF h1 h2] obtain s where
      n: "newSync env w myVersioningFile otherVersioningFile moduleSetName myRepoRoot = Inr s"
      and bn: "branchName =
         ''sync_'' @ OtherModuleSetName s @ ''_'' @ ModuleSet.Version (OtherModuleSet s)"
      and cm: "commitMessage =
         ''Sync repo to use '' @ OtherModuleSetName s @ '' with version '' @
           ModuleSet.Version (OtherModuleSet s)"
      by blast
    from newSync_Inr [OF n] bn cm show ?thesis by simp
  qed
  from b commitChangesToNewBranch_eq [of env s w] show ?thesis by blast
qed

theorem sync_branch_name_and_commit_message_witness:
  "CallCommitChangesToNewBranch ''sync_other-mod-set-1_v1.2.3''
     ''Sync repo to use other-mod-set-1 with version v1.2.3''
     \<in> set (snd (snd (Run_moduleSet exampleSyncEnv unsyncedWorld ''versions.yaml'' ''other.yaml''
                        ''/repo'' False ''other-mod-set-1'')))
   \<and> (\<exists>otherModuleSet.
         GetModuleSet exampleSyncEnv unsyncedWorld ''other-mod-set-1'' ''other.yaml'' =
           Inr otherModuleSet
         \<and> ''sync_other-mod-set-1_v1.2.3'' =
             ''sync_'' @ ''other-mod-set-1'' @ ''_'' @ ModuleSet.Version otherModuleSet
         \<and> ''Sync repo to use other-mod-set-1 with version v1.2.3'' =
             ''Sync repo to use '' @ ''other-mod-set-1'' @ '' with version '' @
               ModuleSet.Version otherModuleSet)"
proof -
  let ?run = "Run_moduleSet exampleSyncEnv unsyncedWorld ''versions.yaml'' ''other.yaml''
                        ''/repo'' False ''other-mod-set-1''"
  have m: "CallCommitChangesToNewBranch ''sync_other-mod-set-1_v1.2.3''
     ''Sync repo to use other-mod-set-1 with version v1.2.3'' \<in> set (snd (snd ?run))"
    by (simp add: example_Run_moduleSet_unsynced)
  have r: "?run = (fst ?run, fst (snd ?run), snd (snd ?run))" by simp
  from sync_branch_name_and_commit_message
    [of exampleSyncEnv exampleSync unsyncedWorld "''versions.yaml''" "''other.yaml''" "''/repo''"
        False "''other-mod-set-1''" "fst ?run" "fst (snd ?run)" "snd (snd ?run)"
        "''sync_other-mod-set-1_v1.2.3''"
        "''Sync repo to use other-mod-set-1 with version v1.2.3''"] r m
  have "\<exists>otherModuleSet.
         GetModuleSet exampleSyncEnv unsyncedWorld ''other-mod-set-1'' ''other.yaml'' =
           Inr otherModuleSet
         \<and> ''sync_other-mod-set-1_v1.2.3'' =
             ''sync_'' @ ''other-mod-set-1'' @ ''_'' @ ModuleSet.Version otherModuleSet
         \<and> ''Sync repo to use other-mod-set-1 with version v1.2.3'' =
             ''Sync repo to use '' @ ''other-mod-set-1'' @ '' with version '' @
               ModuleSet.Version otherModuleSet"
    by blast
  with m show ?thesis by blast
qed

subsection \<open>A failing tidy step\<close>

text \<open>
  Claim C10. When the tree has changed and \<^verbatim>\<open>go mod tidy\<close> fails, the failure is logged
  as a warning and nothing else: the body of the loop goes on to commit the changes to
  the new branch, and whether the run goes on or ends is decided by that commit alone.
\<close>

theorem sync_tidy_failure_is_only_logged:
  "newSync env w myVersioningFile otherVersioningFile moduleSetName myRepoRoot = Inr s
   \<and> updateAllGoModFiles env s w = (None, w1, ev1)
   \<and> checkModuleSetUpToDate env w1 = Inr False
   \<and> RunGoModTidy env (ModPathMap (MyModuleVersioning s)) w1 = (Some tidyErr, w2)
   \<and> commitChangesToNewBranch env s w2 = (res, w3, ev3) \<longrightarrow>
   Run_moduleSet env w myVersioningFile otherVersioningFile myRepoRoot False moduleSetName =
     ((case res of
         None \<Rightarrow> None
       | Some err \<Rightarrow> Some (FatalV [S ''commitChangesToNewBranch failed:'', E err])),
      w3,
      [Logged ''===== Module Set: %v ====='' [S moduleSetName]] @ ev1 @
      [Logged ''Updating versions for module set...'' [],
       CallRunGoModTidy (ModPathMap (MyModuleVersioning s)),
       Logged (''WARNING: failed to run '' @ [CHR 0x27] @ ''go mod tidy'' @ [CHR 0x27] @ '': %v'')
         [E tidyErr]] @ ev3)
   \<and> (\<exists>branchName commitMessage.
         ev3 = [CallCommitChangesToNewBranch branchName commitMessage]
         \<and> (res, w3) = CommitChangesToNewBranch env branchName commitMessage w2)"
proof
  assume h: "newSync env w myVersioningFile otherVersioningFile moduleSetName myRepoRoot = Inr s
   \<and> updateAllGoModFiles env s w = (None, w1, ev1)
   \<and> checkModuleSetUpToDate env w1 = Inr False
   \<and> RunGoModTidy env (ModPathMap (MyModuleVersioning s)) w1 = (Some tidyErr, w2)
   \<and> commitChangesToNewBranch env s w2 = (res, w3, ev3)"
  then have n: "newSync env w myVersioningFile otherVersioningFile moduleSetName myRepoRoot
        = Inr s"
    and u: "updateAllGoModFiles env s w = (None, w1, ev1)"
    and c: "checkModuleSetUpToDate env w1 = Inr False"
    and t: "RunGoModTidy env (ModPathMap (MyModuleVersioning s)) w1 = (Some tidyErr, w2)"
    and k: "commitChangesToNewBranch env s w2 = (res, w3, ev3)"
    by blast+
  have run: "Run_moduleSet env w myVersioningFile otherVersioningFile myRepoRoot False
      moduleSetName =
     ((case res of
         None \<Rightarrow> None
       | Some err \<Rightarrow> Some (FatalV [S ''commitChangesToNewBranch failed:'', E err])),
      w3,
      [Logged ''===== Module Set: %v ====='' [S moduleSetName]] @ ev1 @
      [Logged ''Updating versions for module set...'' [],
       CallRunGoModTidy (ModPathMap (MyModuleVersioning s)),
       Logged (''WARNING: failed to run '' @ [CHR 0x27] @ ''go mod tidy'' @ [CHR 0x27] @ '': %v'')
         [E tidyErr]] @ ev3)"
    by (cases res) (simp_all add: Run_moduleSet_def n u c t k)
  from k have "\<exists>branchName commitMessage.
         ev3 = [CallCommitChangesToNewBranch branchName commitMessage]
         \<and> (res, w3) = CommitChangesToNewBranch env branchName commitMessage w2"
    unfolding commitChangesToNewBranch_eq by (metis prod.collapse prod.inject)
  with run show "Run_moduleSet env w myVersioningFile otherVersioningFile myRepoRoot False
      moduleSetName =
     ((case res of
         None \<Rightarrow> None
       | Some err \<Rightarrow> Some (FatalV [S ''commitChangesToNewBranch failed:'', E err])),
      w3,
      [Logged ''===== Module Set: %v ====='' [S moduleSetName]] @ ev1 @
      [Logged ''Updating versions for module set...'' [],
       CallRunGoModTidy (ModPathMap (MyModuleVersioning s)),
       Logged (''WARNING: failed to run '' @ [CHR 0x27] @ ''go mod tidy'' @ [CHR 0x27] @ '': %v'')
         [E tidyErr]] @ ev3)
   \<and> (\<exists>branchName commitMessage.
         ev3 = [CallCommitChangesToNewBranch branchName commitMessage]
         \<and> (res, w3) = CommitChangesToNewBranch env branchName commitMessage w2)"
    by blast
qed

theorem sync_tidy_failure_is_only_logged_witness:
  "newSync exampleSyncEnv unsyncedWorld ''versions.yaml'' ''other.yaml'' ''other-mod-set-1''
     ''/repo'' = Inr exampleSync
   \<and> checkModuleSetUpToDate exampleSyncEnv rewrittenWorld = Inr False
   \<and> RunGoModTidy exampleSyncEnv validModPathMap rewrittenWorld = (Some ErrStorage, rewrittenWorld)
   \<and> Run_moduleSet exampleSyncEnv unsyncedWorld ''versions.yaml'' ''other.yaml'' ''/repo'' False
        ''other-mod-set-1'' =
      (None, syncedWorld,
       [Logged ''===== Module Set: %v ====='' [S ''other-mod-set-1''],
        CallUpdateGoModFiles [''/repo/test/test1/go.mod'', ''/repo/test/go.mod'', ''/repo/go.mod'']
          [''go.opentelemetry.io/other/test1''] ''v1.2.3'',
        Logged ''Updating versions for module set...'' [],
        CallRunGoModTidy validModPathMap,
        Logged (''WARNING: failed to run '' @ [CHR 0x27] @ ''go mod tidy'' @ [CHR 0x27] @ '': %v'')
          [E ErrStorage],
        CallCommitChangesToNewBranch ''sync_other-mod-set-1_v1.2.3''
          ''Sync repo to use other-mod-set-1 with version v1.2.3''])"
proof -
  have t: "RunGoModTidy exampleSyncEnv (ModPathMap (MyModuleVersioning exampleSync))
      rewrittenWorld = (Some ErrStorage, rewrittenWorld)"
    by (simp add: example_paths example_tidy)
  from sync_tidy_failure_is_only_logged
    [of exampleSyncEnv unsyncedWorld "''versions.yaml''" "''other.yaml''" "''other-mod-set-1''"
        "''/repo''" exampleSync rewrittenWorld _ ErrStorage rewrittenWorld None syncedWorld]
    example_newSync example_update_unsynced example_checks(1) t example_commit
  have "Run_moduleSet exampleSyncEnv unsyncedWorld ''versions.yaml'' ''other.yaml'' ''/repo'' False
        ''other-mod-set-1'' =
      (None, syncedWorld,
       [Logged ''===== Module Set: %v ====='' [S ''other-mod-set-1'']] @
       [CallUpdateGoModFiles [''/repo/test/test1/go.mod'', ''/repo/test/go.mod'', ''/repo/go.mod'']
          [''go.opentelemetry.io/other/test1''] ''v1.2.3''] @
       [Logged ''Updating versions for module set...'' [],
        CallRunGoModTidy (ModPathMap (MyModuleVersioning exampleSync)),
        Logged (''WARNING: failed to run '' @ [CHR 0x27] @ ''go mod tidy'' @ [CHR 0x27] @ '': %v'')
          [E ErrStorage]] @
       [CallCommitChangesToNewBranch ''sync_other-mod-set-1_v1.2.3''
          ''Sync repo to use other-mod-set-1 with version v1.2.3''])"
    by fastforce
  with example_newSync example_checks(1) example_tidy show ?thesis
    by (simp add: example_paths)
qed

end
